theory Spec2Isabelle
  imports Main
begin

section \<open>JavaScript values as the handlers see them\<close>

text \<open>
  The repository holds two versions of the React component \<^verbatim>\<open>WebRtcTest\<close>. The
  definitions below follow the later one (the one with \<^verbatim>\<open>peerUsername\<close>), statement by
  statement. The earlier one has the same filter in \<^verbatim>\<open>onSignal\<close> and the same
  \<^verbatim>\<open>accept\<close>, \<^verbatim>\<open>reject\<close>, \<^verbatim>\<open>end\<close>, \<^verbatim>\<open>drainIce\<close>, \<^verbatim>\<open>teardownPc\<close> and \<^verbatim>\<open>safeParse\<close>; it
  addresses its frames to \<^verbatim>\<open>peer\<close> with no test for an unknown peer, and its
  \<^verbatim>\<open>onCallNotif\<close> only writes a log line.

  The component parses every inbound frame with \<^verbatim>\<open>JSON.parse\<close> and then reads properties
  of the result, tests them for truthiness, compares them with \<^verbatim>\<open>===\<close> and renders them
  with \<^verbatim>\<open>String\<close>. The values are modelled as a datatype. A number is given by the text
  that \<^verbatim>\<open>String\<close> renders it as (\<^verbatim>\<open>42\<close>, \<^verbatim>\<open>1.5\<close>, \<^verbatim>\<open>1e+21\<close>): that text determines the
  number and is all the component uses of it. An object lists each of its keys once.
\<close>

datatype jsval =
    JUndefined
  | JNull
  | JBool bool
  | JNum string
  | JStr string
  | JArr "jsval list"
  | JObj "(string \<times> jsval) list"

text \<open>
  Truthiness, as \<^verbatim>\<open>if (v)\<close> and \<^verbatim>\<open>!v\<close> decide it: of the numbers, zero (which renders as
  \<^verbatim>\<open>0\<close>, whatever its sign) and \<^verbatim>\<open>NaN\<close> are falsy.
\<close>

fun truthy :: "jsval \<Rightarrow> bool" where
  "truthy JUndefined = False"
| "truthy JNull = False"
| "truthy (JBool b) = b"
| "truthy (JNum n) = (n \<noteq> ''0'' \<and> n \<noteq> ''NaN'')"
| "truthy (JStr s) = (s \<noteq> [])"
| "truthy (JArr xs) = True"
| "truthy (JObj kvs) = True"

text \<open>
  Reading a property \<^verbatim>\<open>v.k\<close> of a value that is neither null nor undefined, for the
  property names the component reads (\<^verbatim>\<open>type\<close>, \<^verbatim>\<open>callId\<close>, \<^verbatim>\<open>sdp\<close>, \<^verbatim>\<open>candidate\<close>,
  \<^verbatim>\<open>otherParticipant\<close>, \<^verbatim>\<open>callerId\<close>, \<^verbatim>\<open>recipientId\<close>): an object yields the stored value
  or undefined, a primitive or an array yields undefined. Every read in the handlers
  below stands behind a truthiness test of the value read from.
\<close>

fun js_get :: "jsval \<Rightarrow> string \<Rightarrow> jsval" where
  "js_get (JObj kvs) k = (case map_of kvs k of Some v \<Rightarrow> v | None \<Rightarrow> JUndefined)"
| "js_get v k = JUndefined"

text \<open>The nullish coalescing operator \<^verbatim>\<open>a ?? b\<close>.\<close>

definition nullish :: "jsval \<Rightarrow> jsval \<Rightarrow> jsval" where
  "nullish a b = (if a = JUndefined \<or> a = JNull then b else a)"

text \<open>
  \<^verbatim>\<open>String(v)\<close>, which is also how a template literal renders \<^verbatim>\<open>${v}\<close>; None when the
  conversion throws a TypeError. An array joins the renderings of its elements with
  commas, null and undefined elements rendering as the empty string, and throws when an
  element does. An object parsed from JSON renders as \<^verbatim>\<open>[object Object]\<close> unless it has a
  key \<^verbatim>\<open>toString\<close> of its own: the value under it hides \<^verbatim>\<open>Object.prototype.toString\<close> and
  cannot be called, and no \<^verbatim>\<open>valueOf\<close> yields a primitive, so the conversion throws.
\<close>

fun join_comma :: "string option list \<Rightarrow> string option" where
  "join_comma [] = Some []"
| "join_comma [x] = x"
| "join_comma (x # y # ys) =
     (case x of
        None \<Rightarrow> None
      | Some s \<Rightarrow> (case join_comma (y # ys) of None \<Rightarrow> None | Some t \<Rightarrow> Some (s @ '','' @ t)))"

fun js_String :: "jsval \<Rightarrow> string option" where
  "js_String JUndefined = Some ''undefined''"
| "js_String JNull = Some ''null''"
| "js_String (JBool b) = Some (if b then ''true'' else ''false'')"
| "js_String (JNum n) = Some n"
| "js_String (JStr s) = Some s"
| "js_String (JArr xs) =
     join_comma (map (\<lambda>x. if x = JUndefined \<or> x = JNull then Some [] else js_String x) xs)"
| "js_String (JObj kvs) =
     (if ''toString'' \<in> fst ` set kvs then None else Some ''[object Object]'')"

section \<open>The component: state, collaborators and effects\<close>

text \<open>
  Objects the component holds by reference are handles: the peer connection
  (\<^verbatim>\<open>RTCPeerConnection\<close>), the data channel and the bus client.
\<close>

type_synonym pc = nat
type_synonym dc = nat
type_synonym client = nat

text \<open>
  Every call the component makes on a collaborator is recorded, in the order of the
  calls: the operations on the peer-connection primitive and the frames handed to the
  bus client's \<^verbatim>\<open>publish\<close>. A frame is recorded with its destination and the value that
  \<^verbatim>\<open>send\<close> serialises into its body (the header is always
  \<^verbatim>\<open>content-type: application/json\<close>). A call is recorded whether it succeeds or fails.
\<close>

datatype effect =
    NewPc pc
  | CreateDataChannel pc string dc
  | SetRemoteDescription pc jsval
  | CreateAnswer pc
  | CreateOffer pc
  | SetLocalDescription pc jsval
  | AddIceCandidate pc jsval
  | ClosePc pc
  | CloseDc dc
  | Publish client string jsval

text \<open>
  The collaborators are outside the repository, so their behaviour is a parameter:
  \<^verbatim>\<open>JSON.parse\<close> (None when it throws) and, for each asynchronous operation of the
  primitive, whether it rejects (with the rendering of the error as a string) given
  every call made so far. \<^verbatim>\<open>createAnswer\<close> and \<^verbatim>\<open>createOffer\<close> yield the description
  otherwise. Constructing a connection, creating a data channel and \<^verbatim>\<open>publish\<close> on an
  existing client are taken not to throw.
\<close>

record env =
  JSON_parse :: "string \<Rightarrow> jsval option"
  rtc_setRemoteDescription :: "effect list \<Rightarrow> pc \<Rightarrow> jsval \<Rightarrow> string option"
  rtc_setLocalDescription :: "effect list \<Rightarrow> pc \<Rightarrow> jsval \<Rightarrow> string option"
  rtc_createAnswer :: "effect list \<Rightarrow> pc \<Rightarrow> string + jsval"
  rtc_createOffer :: "effect list \<Rightarrow> pc \<Rightarrow> string + jsval"
  rtc_addIceCandidate :: "effect list \<Rightarrow> pc \<Rightarrow> jsval \<Rightarrow> string option"


text \<open>
  The state of \<^verbatim>\<open>WebRtcTest\<close> that the signalling code reads and writes: the React state
  \<^verbatim>\<open>me\<close>, \<^verbatim>\<open>peerUsername\<close>, \<^verbatim>\<open>callId\<close> and \<^verbatim>\<open>log\<close>, and the refs. \<open>allocated\<close> counts
  the objects constructed so far and names the next one; \<open>effects\<close> is the record of
  calls described above. A log line is kept without the wall-clock prefix that
  \<^verbatim>\<open>logLine\<close> puts before it.
\<close>

record component =
  me :: string
  peerUsername :: string
  callId :: string
  stompRef :: "client option"
  pcRef :: "pc option"
  dcRef :: "dc option"
  hasRemoteRef :: bool
  pendingIceRef :: "jsval list"
  log :: "string list"
  allocated :: nat
  effects :: "effect list"

text \<open>
  A function of the component is created anew in every render and closes over that
  render's constants \<^verbatim>\<open>me\<close>, \<^verbatim>\<open>peerUsername\<close> and \<^verbatim>\<open>callId\<close>; the refs and the state
  setters are the same in every render. A button runs the function of the latest
  render, which holds the current state (\<open>current\<close>). The bus client runs the \<^verbatim>\<open>onSignal\<close>
  and \<^verbatim>\<open>onCallNotif\<close> that \<^verbatim>\<open>connect\<close> handed to \<^verbatim>\<open>subscribe\<close>: those of the render in which
  \<^verbatim>\<open>Connect WS\<close> was clicked, whatever the state has become since. So the two handlers
  take their render as an argument.
\<close>

record render =
  r_me :: string
  r_peerUsername :: string
  r_callId :: string

definition current :: "component \<Rightarrow> render" where
  "current st = \<lparr>r_me = me st, r_peerUsername = peerUsername st, r_callId = callId st\<rparr>"

text \<open>An inbound frame: \<^verbatim>\<open>msg.body\<close> may be absent.\<close>

record IMessage =
  body :: "string option"

text \<open>
  How a handler ends: it returns, or it ends with an error that nothing in the
  component catches (the rejected promise of an \<^verbatim>\<open>async\<close> function, the exception of a
  synchronous one), given by the rendering of the error.
\<close>

datatype outcome = Returned | Rejected string

text \<open>
  An \<^verbatim>\<open>async\<close> function runs up to its next \<^verbatim>\<open>await\<close> and lets go; other frames and clicks
  are handled before the awaited promise settles and the function goes on. A suspended
  function is a task: the \<^verbatim>\<open>await\<close> it stands at, the local variables it still needs
  (the connection \<^verbatim>\<open>pc\<close>, the rest of the queue of \<^verbatim>\<open>drainIce\<close>, the answer or offer, the
  render it closes over) and what the awaited promise will settle with.
\<close>

datatype branch = InOffer render | InAnswer

datatype task =
    AwaitRemote pc "string option" branch
  | AwaitDrain pc "string option" "jsval list" branch
  | AwaitCreateAnswer pc "string + jsval" render
  | AwaitLocalAnswer pc jsval "string option" render
  | AwaitIce "string option"
  | AwaitCreateOffer pc "string + jsval" render
  | AwaitLocalOffer pc jsval "string option" render

datatype progress = Done outcome | Pending task

section \<open>The functions of the component\<close>

definition safeParse :: "env \<Rightarrow> string option \<Rightarrow> jsval" where
  "safeParse env s =
     (case s of
        None \<Rightarrow> JNull
      | Some t \<Rightarrow>
          if t = [] then JNull
          else (case JSON_parse env t of Some v \<Rightarrow> v | None \<Rightarrow> JNull))"

definition logLine :: "string \<Rightarrow> component \<Rightarrow> component" where
  "logLine s st = st\<lparr>log := log st @ [s]\<rparr>"

definition send :: "string \<Rightarrow> jsval \<Rightarrow> component \<Rightarrow> component" where
  "send dest b st =
     (case stompRef st of
        None \<Rightarrow> st
      | Some c \<Rightarrow> st\<lparr>effects := effects st @ [Publish c (''/app'' @ dest) b]\<rparr>)"

definition teardownPc :: "component \<Rightarrow> component" where
  "teardownPc st =
     (let s1 = (case dcRef st of
                  Some d \<Rightarrow> st\<lparr>effects := effects st @ [CloseDc d]\<rparr>
                | None \<Rightarrow> st);
          s2 = (case pcRef s1 of
                  Some p \<Rightarrow> s1\<lparr>effects := effects s1 @ [ClosePc p]\<rparr>
                | None \<Rightarrow> s1)
      in s2\<lparr>dcRef := None, pcRef := None, hasRemoteRef := False, pendingIceRef := []\<rparr>)"

definition accept :: "component \<Rightarrow> component" where
  "accept st = send ''/call.accept'' (JObj [(''callId'', JStr (callId st))]) st"

definition reject :: "component \<Rightarrow> component" where
  "reject st =
     send ''/call.reject'' (JObj [(''callId'', JStr (callId st)), (''reason'', JStr ''busy'')]) st"

text \<open>The source's \<^verbatim>\<open>end\<close>.\<close>

definition end_call :: "component \<Rightarrow> component" where
  "end_call st = teardownPc (send ''/call.end'' (JObj [(''callId'', JStr (callId st))]) st)"

text \<open>
  \<open>accept\<close>, \<open>reject\<close> and \<open>end_call\<close> run from buttons and have no await: they are the
  functions of the current render and read the current \<^verbatim>\<open>callId\<close>.

  \<open>ensurePc\<close> yields the peer connection, constructing it (and, for the caller, its data
  channel) when there is none. The event handlers it installs on a new connection
  (\<^verbatim>\<open>onicecandidate\<close>, \<^verbatim>\<open>ondatachannel\<close>, \<^verbatim>\<open>onconnectionstatechange\<close>) are not part of
  this development.
\<close>

definition ensurePc :: "bool \<Rightarrow> component \<Rightarrow> pc \<times> component" where
  "ensurePc isCaller st =
     (case pcRef st of
        Some p \<Rightarrow> (p, st)
      | None \<Rightarrow>
          (let p = allocated st;
               s1 = st\<lparr>pcRef := Some p, allocated := Suc p,
                        effects := effects st @ [NewPc p]\<rparr>
           in if isCaller
              then (let d = allocated s1
                    in (p, s1\<lparr>dcRef := Some d, allocated := Suc d,
                               effects := effects s1 @ [CreateDataChannel p ''test'' d]\<rparr>))
              else (p, s1)))"

text \<open>
  A call \<^verbatim>\<open>pc.op(...)\<close> of an asynchronous operation: the call is recorded, and what its
  promise will settle with is fixed by the calls made so far.
\<close>

definition setRemoteDescription :: "env \<Rightarrow> pc \<Rightarrow> jsval \<Rightarrow> component \<Rightarrow> string option \<times> component" where
  "setRemoteDescription env p sdp st =
     (rtc_setRemoteDescription env (effects st) p sdp,
      st\<lparr>effects := effects st @ [SetRemoteDescription p sdp]\<rparr>)"

definition setLocalDescription :: "env \<Rightarrow> pc \<Rightarrow> jsval \<Rightarrow> component \<Rightarrow> string option \<times> component" where
  "setLocalDescription env p sdp st =
     (rtc_setLocalDescription env (effects st) p sdp,
      st\<lparr>effects := effects st @ [SetLocalDescription p sdp]\<rparr>)"

definition createAnswer :: "env \<Rightarrow> pc \<Rightarrow> component \<Rightarrow> (string + jsval) \<times> component" where
  "createAnswer env p st =
     (rtc_createAnswer env (effects st) p, st\<lparr>effects := effects st @ [CreateAnswer p]\<rparr>)"

definition createOffer :: "env \<Rightarrow> pc \<Rightarrow> component \<Rightarrow> (string + jsval) \<times> component" where
  "createOffer env p st =
     (rtc_createOffer env (effects st) p, st\<lparr>effects := effects st @ [CreateOffer p]\<rparr>)"

definition addIceCandidate :: "env \<Rightarrow> pc \<Rightarrow> jsval \<Rightarrow> component \<Rightarrow> string option \<times> component" where
  "addIceCandidate env p c st =
     (rtc_addIceCandidate env (effects st) p c,
      st\<lparr>effects := effects st @ [AddIceCandidate p c]\<rparr>)"

text \<open>
  \<^verbatim>\<open>drainIce\<close>, when each of its awaits settles before anything else is handled:
  \<^verbatim>\<open>splice(0)\<close> empties the buffer and yields its content; the loop applies each
  candidate inside its own \<^verbatim>\<open>try\<close>, logging a rejection and going on.
\<close>

fun drainLoop :: "env \<Rightarrow> pc \<Rightarrow> jsval list \<Rightarrow> component \<Rightarrow> component" where
  "drainLoop env p [] st = st"
| "drainLoop env p (c # queue) st =
     drainLoop env p queue
       (case addIceCandidate env p c st of
          (Some err, s) \<Rightarrow> logLine (''drain addIce error '' @ err) s
        | (None, s) \<Rightarrow> s)"

definition drainIce :: "env \<Rightarrow> pc \<Rightarrow> component \<Rightarrow> component" where
  "drainIce env p st = drainLoop env p (pendingIceRef st) (st\<lparr>pendingIceRef := []\<rparr>)"

text \<open>
  The same loop, one await at a time. \<open>drainNext\<close> is the loop at the head of the
  remaining queue: it calls the primitive for the next candidate and suspends, or, the
  queue being empty, goes on with what follows \<^verbatim>\<open>await drainIce(pc)\<close> in the branch of
  \<^verbatim>\<open>onSignal\<close> that called it (\<open>afterDrain\<close>): the OFFER branch creates the answer, the
  ANSWER branch writes its log line and is done. The promise of a \<^verbatim>\<open>drainIce\<close> that has
  nothing left to apply is settled already, so \<^verbatim>\<open>await drainIce(pc)\<close> goes on before any
  other frame or settling is handled and is no task of its own.
\<close>

fun afterDrain :: "env \<Rightarrow> pc \<Rightarrow> branch \<Rightarrow> component \<Rightarrow> progress \<times> component" where
  "afterDrain env p InAnswer st = (Done Returned, logLine ''ANSWER set'' st)"
| "afterDrain env p (InOffer r) st =
     (let (res, s) = createAnswer env p st in (Pending (AwaitCreateAnswer p res r), s))"

fun drainNext :: "env \<Rightarrow> pc \<Rightarrow> jsval list \<Rightarrow> branch \<Rightarrow> component \<Rightarrow> progress \<times> component" where
  "drainNext env p [] k st = afterDrain env p k st"
| "drainNext env p (c # queue) k st =
     (let (res, s) = addIceCandidate env p c st in (Pending (AwaitDrain p res queue k), s))"

text \<open>
  \<open>onCallNotif\<close> is synchronous. \<^verbatim>\<open>String(payload.callId)\<close> and the template literal of
  the log line may throw; the state setters called before that have taken effect.
\<close>

definition onCallNotif :: "env \<Rightarrow> render \<Rightarrow> component \<Rightarrow> IMessage \<Rightarrow> outcome \<times> component" where
  "onCallNotif env r st msg =
     (let payload = safeParse env (body msg) in
      if \<not> truthy payload then (Returned, st)
      else
        (case (if truthy (js_get payload ''callId'')
               then (case js_String (js_get payload ''callId'') of
                       Some s \<Rightarrow> Some (st\<lparr>callId := s\<rparr>)
                     | None \<Rightarrow> None)
               else Some st) of
           None \<Rightarrow> (Rejected ''TypeError'', st)
         | Some s1 \<Rightarrow>
             (let other =
                    nullish
                      (nullish
                         (nullish (js_get payload ''otherParticipant'')
                            (if js_get payload ''callerId'' = JStr (r_me r)
                             then js_get payload ''recipientId''
                             else js_get payload ''callerId''))
                         (js_get payload ''callerId''))
                      (js_get payload ''recipientId'');
                  s2 = (case other of
                          JStr u \<Rightarrow> if u \<noteq> [] then s1\<lparr>peerUsername := u\<rparr> else s1
                        | _ \<Rightarrow> s1)
              in case js_String (js_get payload ''type'') of
                   None \<Rightarrow> (Rejected ''TypeError'', s2)
                 | Some ty \<Rightarrow>
                     (case js_String (nullish (js_get payload ''callId'') (JStr [])) of
                        None \<Rightarrow> (Rejected ''TypeError'', s2)
                      | Some cid \<Rightarrow>
                          (Returned, logLine (''CALL NOTIF: '' @ ty @ '' '' @ cid) s2)))))"

text \<open>
  \<open>onSignal\<close> up to its first \<^verbatim>\<open>await\<close>. The filter \<^verbatim>\<open>!payload || payload.callId !== callId\<close>
  reads the property only of a truthy payload and compares with the \<^verbatim>\<open>callId\<close> of the
  handler's render. A candidate that is only buffered ends the handler at once.
\<close>

definition onSignal :: "env \<Rightarrow> render \<Rightarrow> component \<Rightarrow> IMessage \<Rightarrow> progress \<times> component" where
  "onSignal env r st msg =
     (let payload = safeParse env (body msg) in
      if \<not> truthy payload then (Done Returned, st)
      else if js_get payload ''callId'' \<noteq> JStr (r_callId r) then (Done Returned, st)
      else if js_get payload ''type'' = JStr ''OFFER'' then
        (let (p, s1) = ensurePc False st;
             (res, s2) = setRemoteDescription env p (js_get payload ''sdp'') s1
         in (Pending (AwaitRemote p res (InOffer r)), s2))
      else if js_get payload ''type'' = JStr ''ANSWER'' then
        (let (p, s1) = ensurePc False st;
             (res, s2) = setRemoteDescription env p (js_get payload ''sdp'') s1
         in (Pending (AwaitRemote p res InAnswer), s2))
      else if js_get payload ''type'' = JStr ''ICE_CANDIDATE'' then
        (let (p, s1) = ensurePc False st in
         if \<not> hasRemoteRef s1
         then (Done Returned,
               s1\<lparr>pendingIceRef := pendingIceRef s1 @ [js_get payload ''candidate'']\<rparr>)
         else (let (res, s2) = addIceCandidate env p (js_get payload ''candidate'') s1
               in (Pending (AwaitIce res), s2)))
      else (Done Returned, st))"

text \<open>
  \<open>startOffer\<close> up to its first \<^verbatim>\<open>await\<close>. It runs from a button, so its render is the
  current one, and it keeps that render over its awaits.
\<close>

definition startOffer :: "env \<Rightarrow> component \<Rightarrow> progress \<times> component" where
  "startOffer env st =
     (if callId st = [] then (Done Returned, logLine ''Set callId before sending an OFFER.'' st)
      else if peerUsername st = []
      then (Done Returned, logLine ''Set peer username (phone) before sending an OFFER.'' st)
      else
        (let (p, s1) = ensurePc True st;
             (res, s2) = createOffer env p s1
         in (Pending (AwaitCreateOffer p res (current st)), s2)))"

text \<open>
  The awaited promise of a task settles and the function goes on, up to its next
  \<^verbatim>\<open>await\<close> or to its end. After the remote description the flag is set, then
  \<^verbatim>\<open>drainIce\<close> takes the buffer and starts on it. The frame of the ANSWER and of the OFFER
  is built from the render of the function, and \<^verbatim>\<open>send\<close> reads \<^verbatim>\<open>stompRef\<close> at that moment.
\<close>

fun resume :: "env \<Rightarrow> task \<Rightarrow> component \<Rightarrow> progress \<times> component" where
  "resume env (AwaitRemote p res k) st =
     (case res of
        Some err \<Rightarrow> (Done (Rejected err), st)
      | None \<Rightarrow>
          (let s3 = st\<lparr>hasRemoteRef := True\<rparr>
           in drainNext env p (pendingIceRef s3) k (s3\<lparr>pendingIceRef := []\<rparr>)))"
| "resume env (AwaitDrain p res queue k) st =
     drainNext env p queue k
       (case res of
          Some err \<Rightarrow> logLine (''drain addIce error '' @ err) st
        | None \<Rightarrow> st)"
| "resume env (AwaitCreateAnswer p res r) st =
     (case res of
        Inl err \<Rightarrow> (Done (Rejected err), st)
      | Inr answer \<Rightarrow>
          (let (res', s) = setLocalDescription env p answer st
           in (Pending (AwaitLocalAnswer p answer res' r), s)))"
| "resume env (AwaitLocalAnswer p answer res r) st =
     (case res of
        Some err \<Rightarrow> (Done (Rejected err), st)
      | None \<Rightarrow>
          if r_peerUsername r = []
          then (Done Returned,
                logLine ''Cannot reply with ANSWER because peer username is unknown.'' st)
          else (Done Returned,
                logLine ''ANSWER sent''
                  (send ''/webrtc.answer''
                     (JObj [(''type'', JStr ''ANSWER''),
                            (''callId'', JStr (r_callId r)),
                            (''fromUserId'', JStr (r_me r)),
                            (''toUserId'', JStr (r_peerUsername r)),
                            (''sdp'', answer)])
                     st)))"
| "resume env (AwaitIce res) st =
     (Done Returned,
      case res of Some err \<Rightarrow> logLine (''addIce error '' @ err) st | None \<Rightarrow> st)"
| "resume env (AwaitCreateOffer p res r) st =
     (case res of
        Inl err \<Rightarrow> (Done (Rejected err), st)
      | Inr offer \<Rightarrow>
          (let (res', s) = setLocalDescription env p offer st
           in (Pending (AwaitLocalOffer p offer res' r), s)))"
| "resume env (AwaitLocalOffer p offer res r) st =
     (case res of
        Some err \<Rightarrow> (Done (Rejected err), st)
      | None \<Rightarrow>
          (Done Returned,
           logLine ''OFFER sent''
             (send ''/webrtc.offer''
                (JObj [(''type'', JStr ''OFFER''),
                       (''callId'', JStr (r_callId r)),
                       (''fromUserId'', JStr (r_me r)),
                       (''toUserId'', JStr (r_peerUsername r)),
                       (''sdp'', offer)])
                st)))"

section \<open>Runs\<close>

text \<open>
  What happens to the component, in the order in which it happens: a frame arrives on
  the signal queue or on the notification queue and the subscribed handler runs on it,
  or the promise that the \<open>i\<close>-th suspended function awaits settles. Nothing in the
  component or in the bus client orders the settling of promises before the arrival of
  frames, so every sequence of events is a run. The suspended functions are kept in
  the order in which they were started; \<open>r\<close> is the render of the subscribed handlers.
\<close>

datatype event = Frame IMessage | Notif IMessage | Settle nat

fun step :: "env \<Rightarrow> render \<Rightarrow> task list \<times> component \<Rightarrow> event \<Rightarrow> task list \<times> component" where
  "step env r (ts, st) (Frame m) =
     (case onSignal env r st m of
        (Done out, s) \<Rightarrow> (ts, s)
      | (Pending t, s) \<Rightarrow> (ts @ [t], s))"
| "step env r (ts, st) (Notif m) = (ts, snd (onCallNotif env r st m))"
| "step env r (ts, st) (Settle i) =
     (if i < length ts
      then (case resume env (ts ! i) st of
              (Done out, s) \<Rightarrow> (take i ts @ drop (Suc i) ts, s)
            | (Pending t, s) \<Rightarrow> (ts[i := t], s))
      else (ts, st))"

fun run :: "env \<Rightarrow> render \<Rightarrow> task list \<times> component \<Rightarrow> event list \<Rightarrow> task list \<times> component" where
  "run env r w [] = w"
| "run env r w (e # es) = run env r (step env r w e) es"

text \<open>
  A function that is left alone: its promises settle one after the other and nothing
  else is handled in between. \<open>todo\<close> bounds the awaits it still has before it.
\<close>

fun todo :: "task \<Rightarrow> component \<Rightarrow> nat" where
  "todo (AwaitRemote p res k) st = length (pendingIceRef st) + 4"
| "todo (AwaitDrain p res queue k) st = length queue + 3"
| "todo (AwaitCreateAnswer p res r) st = 2"
| "todo (AwaitLocalAnswer p answer res r) st = 1"
| "todo (AwaitIce res) st = 1"
| "todo (AwaitCreateOffer p res r) st = 2"
| "todo (AwaitLocalOffer p offer res r) st = 1"

function finish :: "env \<Rightarrow> task \<Rightarrow> component \<Rightarrow> outcome \<times> component" where
  "finish env t st =
     (case fst (resume env t st) of
        Done out \<Rightarrow> (out, snd (resume env t st))
      | Pending t' \<Rightarrow> finish env t' (snd (resume env t st)))"
  by pat_completeness auto
termination
proof (relation "measure (\<lambda>(env, t, st). todo t st)")
  show "wf (measure (\<lambda>(env, t, st). todo t st))" by simp
next
  fix env t st t'
  assume a: "fst (resume env t st) = Pending t'"
  have "todo t' (snd (resume env t st)) < todo t st"
  proof (cases t)
    case (AwaitRemote p res k)
    with a show ?thesis
      by (cases res; cases "pendingIceRef st"; cases k)
         (auto simp: Let_def addIceCandidate_def createAnswer_def logLine_def)
  next
    case (AwaitDrain p res queue k)
    with a show ?thesis
      by (cases queue; cases k)
         (auto simp: Let_def addIceCandidate_def createAnswer_def logLine_def)
  next
    case (AwaitCreateAnswer p res r)
    with a show ?thesis
      by (cases res) (auto simp: Let_def setLocalDescription_def)
  next
    case (AwaitLocalAnswer p answer res r)
    with a show ?thesis by (cases res) (auto split: if_splits)
  next
    case (AwaitIce res)
    with a show ?thesis by simp
  next
    case (AwaitCreateOffer p res r)
    with a show ?thesis
      by (cases res) (auto simp: Let_def setLocalDescription_def)
  next
    case (AwaitLocalOffer p offer res r)
    with a show ?thesis by (cases res) auto
  qed
  then show "((env, t', snd (resume env t st)), (env, t, st)) \<in> measure (\<lambda>(env, t, st). todo t st)"
    by simp
qed

definition alone :: "env \<Rightarrow> progress \<times> component \<Rightarrow> outcome \<times> component" where
  "alone env x = (case fst x of Done out \<Rightarrow> (out, snd x) | Pending t \<Rightarrow> finish env t (snd x))"


section \<open>Vocabulary of the statements\<close>

text \<open>Kinds of recorded calls.\<close>

definition is_close :: "effect \<Rightarrow> bool" where
  "is_close e = (case e of ClosePc p \<Rightarrow> True | CloseDc d \<Rightarrow> True | _ \<Rightarrow> False)"

definition is_publish :: "effect \<Rightarrow> bool" where
  "is_publish e = (case e of Publish c d b \<Rightarrow> True | _ \<Rightarrow> False)"

text \<open>
  A frame on the signal queue that passes the filter of \<open>onSignal\<close> for the call
  \<open>cid\<close> and carries the type \<open>ty\<close>, and the payload fields the handler reads from it.
\<close>

definition signal_for :: "env \<Rightarrow> string \<Rightarrow> string \<Rightarrow> IMessage \<Rightarrow> bool" where
  "signal_for env cid ty m =
     (truthy (safeParse env (body m)) \<and>
      js_get (safeParse env (body m)) ''callId'' = JStr cid \<and>
      js_get (safeParse env (body m)) ''type'' = JStr ty)"

definition candidate_of :: "env \<Rightarrow> IMessage \<Rightarrow> jsval" where
  "candidate_of env m = js_get (safeParse env (body m)) ''candidate''"

definition sdp_of :: "env \<Rightarrow> IMessage \<Rightarrow> jsval" where
  "sdp_of env m = js_get (safeParse env (body m)) ''sdp''"

text \<open>
  The errors the primitive answers with while the candidates of \<open>queue\<close> are applied
  one after the other, \<open>tr\<close> being the calls made before the first of them.
\<close>

fun drainErrors :: "env \<Rightarrow> pc \<Rightarrow> effect list \<Rightarrow> jsval list \<Rightarrow> string list" where
  "drainErrors env p tr [] = []"
| "drainErrors env p tr (c # queue) =
     (case rtc_addIceCandidate env tr p c of Some err \<Rightarrow> [err] | None \<Rightarrow> []) @
     drainErrors env p (tr @ [AddIceCandidate p c]) queue"

text \<open>The body of the ANSWER frame that a handler of the render \<open>r\<close> builds.\<close>

definition answer_frame :: "render \<Rightarrow> jsval \<Rightarrow> jsval" where
  "answer_frame r answer =
     JObj [(''type'', JStr ''ANSWER''), (''callId'', JStr (r_callId r)),
           (''fromUserId'', JStr (r_me r)), (''toUserId'', JStr (r_peerUsername r)),
           (''sdp'', answer)]"

text \<open>
  The suspended tasks that a signal handler of the render \<open>r\<close> leaves behind: the
  render an OFFER handler carries is \<open>r\<close>, and no task is one of \<^verbatim>\<open>startOffer\<close>.
\<close>

fun of_render :: "render \<Rightarrow> task \<Rightarrow> bool" where
  "of_render r (AwaitRemote p res k) = (k = InOffer r \<or> k = InAnswer)"
| "of_render r (AwaitDrain p res queue k) = (k = InOffer r \<or> k = InAnswer)"
| "of_render r (AwaitCreateAnswer p res r') = (r' = r)"
| "of_render r (AwaitLocalAnswer p answer res r') = (r' = r)"
| "of_render r (AwaitIce res) = True"
| "of_render r (AwaitCreateOffer p res r') = False"
| "of_render r (AwaitLocalOffer p offer res r') = False"

text \<open>
  The events in which a signal handler runs: a frame on the signal queue, and the
  settling of a call that a handler awaits.
\<close>

fun is_signal_event :: "event \<Rightarrow> bool" where
  "is_signal_event (Frame m) = True"
| "is_signal_event (Settle i) = True"
| "is_signal_event (Notif m) = False"

text \<open>
  The calls a signal handler of the render \<open>r\<close> adds to the record: whatever is published
  is an ANSWER frame built from \<open>r\<close>, sent by the client \<open>cl\<close> to the answer destination.
\<close>

fun is_answer_of :: "render \<Rightarrow> client option \<Rightarrow> effect \<Rightarrow> bool" where
  "is_answer_of r cl (Publish c dest b) =
     (cl = Some c \<and> dest = ''/app/webrtc.answer'' \<and> b = answer_frame r (js_get b ''sdp''))"
| "is_answer_of r cl e = True"

definition answers_of :: "render \<Rightarrow> client option \<Rightarrow> effect list \<Rightarrow> bool" where
  "answers_of r cl new = list_all (is_answer_of r cl) new"

text \<open>
  The state in which the drain ends that follows a remote description \<open>sdp\<close> the
  primitive has accepted, \<open>s1\<close> being the state in which \<^verbatim>\<open>setRemoteDescription\<close> was
  called.
\<close>

definition drained :: "env \<Rightarrow> pc \<Rightarrow> jsval \<Rightarrow> component \<Rightarrow> component" where
  "drained env p sdp s1 =
     drainIce env p (s1\<lparr>effects := effects s1 @ [SetRemoteDescription p sdp],
                        hasRemoteRef := True\<rparr>)"

text \<open>
  The peer connection \<open>p\<close> is still the component's, and \<^verbatim>\<open>end()\<close> closes it and lets go
  of it.
\<close>

definition endable :: "pc \<Rightarrow> component \<Rightarrow> bool" where
  "endable p s =
     (pcRef s = Some p \<and> ClosePc p \<in> set (effects (end_call s)) \<and>
      pcRef (end_call s) = None)"

section \<open>Concrete frames, collaborators and states\<close>

text \<open>Frames as they arrive on the two queues, with the values \<^verbatim>\<open>JSON.parse\<close> gives for them.\<close>

definition offer_c1 :: IMessage where
  "offer_c1 = \<lparr>body = Some ''{\"type\":\"OFFER\",\"callId\":\"c1\",\"fromUserId\":\"alice\",\"toUserId\":\"carol\",\"sdp\":{\"type\":\"offer\",\"sdp\":\"v=0\"}}''\<rparr>"

definition offer_c2 :: IMessage where
  "offer_c2 = \<lparr>body = Some ''{\"type\":\"OFFER\",\"callId\":\"c2\",\"fromUserId\":\"alice\",\"toUserId\":\"carol\",\"sdp\":{\"type\":\"offer\",\"sdp\":\"v=0\"}}''\<rparr>"

definition offer_nosdp :: IMessage where
  "offer_nosdp = \<lparr>body = Some ''{\"type\":\"OFFER\",\"callId\":\"c1\",\"fromUserId\":\"alice\",\"toUserId\":\"carol\"}''\<rparr>"

definition ice_1 :: IMessage where
  "ice_1 = \<lparr>body = Some ''{\"type\":\"ICE_CANDIDATE\",\"callId\":\"c1\",\"candidate\":{\"candidate\":\"k1\"}}''\<rparr>"

definition ice_2 :: IMessage where
  "ice_2 = \<lparr>body = Some ''{\"type\":\"ICE_CANDIDATE\",\"callId\":\"c1\",\"candidate\":{\"candidate\":\"bad\"}}''\<rparr>"

definition ice_3 :: IMessage where
  "ice_3 = \<lparr>body = Some ''{\"type\":\"ICE_CANDIDATE\",\"callId\":\"c1\",\"candidate\":{\"candidate\":\"k3\"}}''\<rparr>"

definition ice_4 :: IMessage where
  "ice_4 = \<lparr>body = Some ''{\"type\":\"ICE_CANDIDATE\",\"callId\":\"c1\",\"candidate\":{\"candidate\":\"k4\"}}''\<rparr>"

definition ice_42 :: IMessage where
  "ice_42 = \<lparr>body = Some ''{\"type\":\"ICE_CANDIDATE\",\"callId\":\"42\",\"candidate\":{\"candidate\":\"k5\"}}''\<rparr>"

definition notif_0 :: IMessage where
  "notif_0 = \<lparr>body = Some ''{\"type\":\"INCOMING_CALL\",\"callId\":0,\"callerId\":\"alice\"}''\<rparr>"

definition notif_obj :: IMessage where
  "notif_obj = \<lparr>body = Some ''{\"type\":\"INCOMING_CALL\",\"callId\":{\"toString\":1}}''\<rparr>"

definition notif_42 :: IMessage where
  "notif_42 = \<lparr>body = Some ''{\"type\":\"INCOMING_CALL\",\"callId\":42,\"callerId\":\"alice\"}''\<rparr>"

definition truncated :: IMessage where
  "truncated = \<lparr>body = Some ''{\"type\":\"OFFER\",\"callId\":''\<rparr>"

definition sdp_v0 :: jsval where
  "sdp_v0 = JObj [(''type'', JStr ''offer''), (''sdp'', JStr ''v=0'')]"

definition cand :: "string \<Rightarrow> jsval" where
  "cand k = JObj [(''candidate'', JStr k)]"

definition ice_payload :: "string \<Rightarrow> jsval" where
  "ice_payload k =
     JObj [(''type'', JStr ''ICE_CANDIDATE''), (''callId'', JStr ''c1''), (''candidate'', cand k)]"

definition offer_payload :: "string \<Rightarrow> jsval" where
  "offer_payload cid =
     JObj [(''type'', JStr ''OFFER''), (''callId'', JStr cid), (''fromUserId'', JStr ''alice''),
           (''toUserId'', JStr ''carol''), (''sdp'', sdp_v0)]"

text \<open>
  A parser that agrees with \<^verbatim>\<open>JSON.parse\<close> on the frames above (the truncated one
  is not JSON), and a primitive that rejects a description that is undefined and the
  candidate \<^verbatim>\<open>bad\<close>.
\<close>

definition demo_parse :: "string \<Rightarrow> jsval option" where
  "demo_parse t =
     (if Some t = body offer_c1 then Some (offer_payload ''c1'')
      else if Some t = body offer_c2 then Some (offer_payload ''c2'')
      else if Some t = body offer_nosdp
        then Some (JObj [(''type'', JStr ''OFFER''), (''callId'', JStr ''c1''),
                         (''fromUserId'', JStr ''alice''), (''toUserId'', JStr ''carol'')])
      else if Some t = body ice_1 then Some (ice_payload ''k1'')
      else if Some t = body ice_2 then Some (ice_payload ''bad'')
      else if Some t = body ice_3 then Some (ice_payload ''k3'')
      else if Some t = body ice_4 then Some (ice_payload ''k4'')
      else if Some t = body ice_42
        then Some (JObj [(''type'', JStr ''ICE_CANDIDATE''), (''callId'', JStr ''42''),
                         (''candidate'', cand ''k5'')])
      else if Some t = body notif_42
        then Some (JObj [(''type'', JStr ''INCOMING_CALL''), (''callId'', JNum ''42''),
                         (''callerId'', JStr ''alice'')])
      else if Some t = body notif_obj
        then Some (JObj [(''type'', JStr ''INCOMING_CALL''),
                         (''callId'', JObj [(''toString'', JNum ''1'')])])
      else if Some t = body notif_0
        then Some (JObj [(''type'', JStr ''INCOMING_CALL''), (''callId'', JNum ''0''),
                         (''callerId'', JStr ''alice'')])
      else None)"

definition demo_env :: env where
  "demo_env =
     \<lparr>JSON_parse = demo_parse,
      rtc_setRemoteDescription = (\<lambda>tr p sdp. if sdp = JUndefined then Some ''TypeError'' else None),
      rtc_setLocalDescription = (\<lambda>tr p sdp. None),
      rtc_createAnswer = (\<lambda>tr p. Inr (JObj [(''type'', JStr ''answer''), (''sdp'', JStr ''v=0'')])),
      rtc_createOffer = (\<lambda>tr p. Inr (JObj [(''type'', JStr ''offer''), (''sdp'', JStr ''v=0'')])),
      rtc_addIceCandidate = (\<lambda>tr p c. if c = cand ''bad'' then Some ''OperationError'' else None)\<rparr>"

text \<open>
  The callee \<^verbatim>\<open>carol\<close>, connected, in call \<^verbatim>\<open>c1\<close> with peer \<^verbatim>\<open>bob\<close>, before any
  negotiation.
\<close>

definition demo :: component where
  "demo =
     \<lparr>me = ''carol'', peerUsername = ''bob'', callId = ''c1'', stompRef = Some 0,
      pcRef = None, dcRef = None, hasRemoteRef = False, pendingIceRef = [], log = [],
      allocated = 1, effects = []\<rparr>"

text \<open>The same callee without a known peer.\<close>

definition demo_nopeer :: component where
  "demo_nopeer = demo\<lparr>peerUsername := []\<rparr>"

text \<open>The callee with a peer connection and three candidates buffered, the second one bad.\<close>

definition demo_buffered :: component where
  "demo_buffered = demo\<lparr>pcRef := Some 1, allocated := 2, effects := [NewPc 1],
      pendingIceRef := [cand ''k1'', cand ''bad'', cand ''k3'']\<rparr>"

text \<open>The callee after a remote description has been applied.\<close>

definition demo_ready :: component where
  "demo_ready = demo\<lparr>pcRef := Some 1, allocated := 2, hasRemoteRef := True,
      effects := [NewPc 1, SetRemoteDescription 1 sdp_v0]\<rparr>"

definition answer_v0 :: jsval where
  "answer_v0 = JObj [(''type'', JStr ''answer''), (''sdp'', JStr ''v=0'')]"

definition offer_v0 :: jsval where
  "offer_v0 = JObj [(''type'', JStr ''offer''), (''sdp'', JStr ''v=0'')]"

text \<open>Primitives that reject the creation of a description, or the local description.\<close>

definition demo_env_nocreate :: env where
  "demo_env_nocreate =
     demo_env\<lparr>rtc_createAnswer := (\<lambda>tr p. Inl ''InvalidStateError''),
               rtc_createOffer := (\<lambda>tr p. Inl ''InvalidStateError'')\<rparr>"

definition demo_env_nolocal :: env where
  "demo_env_nolocal = demo_env\<lparr>rtc_setLocalDescription := (\<lambda>tr p sdp. Some ''InvalidAccessError'')\<rparr>"

text \<open>
  The callee after the notification of call 42 has arrived: the state holds the new
  call, the subscribed handlers are still those of \<open>current demo\<close>.
\<close>

definition demo_notified :: component where
  "demo_notified = demo\<lparr>callId := ''42'', peerUsername := ''alice'',
      log := [''CALL NOTIF: INCOMING_CALL 42'']\<rparr>"

section \<open>Evaluation of the concrete collaborators\<close>

lemma demo_parse_simps:
  "safeParse demo_env (body offer_c1) = offer_payload ''c1''"
  "safeParse demo_env (body offer_c2) = offer_payload ''c2''"
  "safeParse demo_env (body offer_nosdp) =
     JObj [(''type'', JStr ''OFFER''), (''callId'', JStr ''c1''),
           (''fromUserId'', JStr ''alice''), (''toUserId'', JStr ''carol'')]"
  "safeParse demo_env (body ice_1) = ice_payload ''k1''"
  "safeParse demo_env (body ice_2) = ice_payload ''bad''"
  "safeParse demo_env (body ice_3) = ice_payload ''k3''"
  "safeParse demo_env (body ice_4) = ice_payload ''k4''"
  "safeParse demo_env (body ice_42) =
     JObj [(''type'', JStr ''ICE_CANDIDATE''), (''callId'', JStr ''42''), (''candidate'', cand ''k5'')]"
  "safeParse demo_env (body notif_42) =
     JObj [(''type'', JStr ''INCOMING_CALL''), (''callId'', JNum ''42''), (''callerId'', JStr ''alice'')]"
  "safeParse demo_env (body notif_0) =
     JObj [(''type'', JStr ''INCOMING_CALL''), (''callId'', JNum ''0''), (''callerId'', JStr ''alice'')]"
  "safeParse demo_env (body notif_obj) =
     JObj [(''type'', JStr ''INCOMING_CALL''), (''callId'', JObj [(''toString'', JNum ''1'')])]"
  "safeParse demo_env (body truncated) = JNull"
  by (simp_all add: safeParse_def demo_env_def demo_parse_def offer_c1_def offer_c2_def
      offer_nosdp_def ice_1_def ice_2_def ice_3_def ice_4_def ice_42_def notif_42_def
      notif_0_def notif_obj_def truncated_def)

lemma demo_env_simps:
  "rtc_setRemoteDescription demo_env tr p sdp = (if sdp = JUndefined then Some ''TypeError'' else None)"
  "rtc_setLocalDescription demo_env tr p sdp = None"
  "rtc_createAnswer demo_env tr p = Inr (JObj [(''type'', JStr ''answer''), (''sdp'', JStr ''v=0'')])"
  "rtc_createOffer demo_env tr p = Inr (JObj [(''type'', JStr ''offer''), (''sdp'', JStr ''v=0'')])"
  "rtc_addIceCandidate demo_env tr p c = (if c = cand ''bad'' then Some ''OperationError'' else None)"
  "JSON_parse demo_env_nocreate = JSON_parse demo_env"
  "rtc_setRemoteDescription demo_env_nocreate = rtc_setRemoteDescription demo_env"
  "rtc_addIceCandidate demo_env_nocreate = rtc_addIceCandidate demo_env"
  "rtc_createAnswer demo_env_nocreate tr p = Inl ''InvalidStateError''"
  "rtc_createOffer demo_env_nocreate tr p = Inl ''InvalidStateError''"
  "JSON_parse demo_env_nolocal = JSON_parse demo_env"
  "rtc_setRemoteDescription demo_env_nolocal = rtc_setRemoteDescription demo_env"
  "rtc_addIceCandidate demo_env_nolocal = rtc_addIceCandidate demo_env"
  "rtc_createAnswer demo_env_nolocal = rtc_createAnswer demo_env"
  "rtc_createOffer demo_env_nolocal = rtc_createOffer demo_env"
  "rtc_setLocalDescription demo_env_nolocal tr p sdp = Some ''InvalidAccessError''"
  by (simp_all add: demo_env_def demo_env_nocreate_def demo_env_nolocal_def)

lemma safeParse_cong_env: "JSON_parse env' = JSON_parse env \<Longrightarrow> safeParse env' = safeParse env"
  by (rule ext) (simp add: safeParse_def split: option.splits)

lemma demo_signals:
  "signal_for demo_env ''c1'' ''ICE_CANDIDATE'' ice_1"
  "signal_for demo_env ''c1'' ''ICE_CANDIDATE'' ice_2"
  "signal_for demo_env ''c1'' ''ICE_CANDIDATE'' ice_3"
  "signal_for demo_env ''c1'' ''ICE_CANDIDATE'' ice_4"
  "signal_for demo_env ''c1'' ''OFFER'' offer_c1"
  "signal_for demo_env ''c1'' ''OFFER'' offer_nosdp"
  by (simp_all add: signal_for_def demo_parse_simps ice_payload_def offer_payload_def)

lemma demo_fields:
  "candidate_of demo_env ice_1 = cand ''k1''"
  "candidate_of demo_env ice_2 = cand ''bad''"
  "candidate_of demo_env ice_3 = cand ''k3''"
  "candidate_of demo_env ice_4 = cand ''k4''"
  "sdp_of demo_env offer_c1 = sdp_v0"
  "sdp_of demo_env offer_nosdp = JUndefined"
  by (simp_all add: candidate_of_def sdp_of_def demo_parse_simps ice_payload_def offer_payload_def)

lemma demo_variant_parse:
  "safeParse demo_env_nocreate = safeParse demo_env"
  "safeParse demo_env_nolocal = safeParse demo_env"
  by (rule safeParse_cong_env, simp add: demo_env_simps)+

lemma demo_variant_signals:
  "signal_for demo_env_nocreate = signal_for demo_env"
  "signal_for demo_env_nolocal = signal_for demo_env"
  "sdp_of demo_env_nocreate = sdp_of demo_env"
  "sdp_of demo_env_nolocal = sdp_of demo_env"
  by (simp_all add: fun_eq_iff signal_for_def sdp_of_def demo_variant_parse)

section \<open>Closed forms of the helpers\<close>

lemma current_simps:
  "r_callId (current st) = callId st" "r_me (current st) = me st"
  "r_peerUsername (current st) = peerUsername st"
  by (simp_all add: current_def)

lemma drainLoop_closed:
  "drainLoop env p q st =
     st\<lparr>log := log st @ map (\<lambda>e. ''drain addIce error '' @ e) (drainErrors env p (effects st) q),
        effects := effects st @ map (AddIceCandidate p) q\<rparr>"
proof (induction q arbitrary: st)
  case Nil
  show ?case by simp
next
  case (Cons c q)
  show ?case
    by (cases "rtc_addIceCandidate env (effects st) p c")
       (simp_all add: Cons.IH addIceCandidate_def logLine_def)
qed

lemma drainIce_closed:
  "drainIce env p st =
     st\<lparr>pendingIceRef := [],
        log := log st @ map (\<lambda>e. ''drain addIce error '' @ e)
                 (drainErrors env p (effects st) (pendingIceRef st)),
        effects := effects st @ map (AddIceCandidate p) (pendingIceRef st)\<rparr>"
  by (simp add: drainIce_def drainLoop_closed)

lemma drained_closed:
  "drained env p sdp s1 =
     s1\<lparr>hasRemoteRef := True, pendingIceRef := [],
        log := log s1 @ map (\<lambda>e. ''drain addIce error '' @ e)
                 (drainErrors env p (effects s1 @ [SetRemoteDescription p sdp]) (pendingIceRef s1)),
        effects := effects s1 @ [SetRemoteDescription p sdp] @
                   map (AddIceCandidate p) (pendingIceRef s1)\<rparr>"
  by (simp add: drained_def drainIce_closed)

lemma ensurePc_False_cases:
  assumes "ensurePc False st = (p, s1)"
  shows "(pcRef st = Some p \<and> s1 = st) \<or>
         (pcRef st = None \<and> p = allocated st \<and>
          s1 = st\<lparr>pcRef := Some p, allocated := Suc p, effects := effects st @ [NewPc p]\<rparr>)"
  using assms by (auto simp: ensurePc_def Let_def split: option.splits)

lemma ensurePc_False_frame:
  assumes "ensurePc False st = (p, s1)"
  shows "pcRef s1 = Some p" "dcRef s1 = dcRef st" "hasRemoteRef s1 = hasRemoteRef st"
    "pendingIceRef s1 = pendingIceRef st" "log s1 = log st" "callId s1 = callId st"
    "me s1 = me st" "peerUsername s1 = peerUsername st" "stompRef s1 = stompRef st"
    "effects s1 = effects st @ (case pcRef st of Some q \<Rightarrow> [] | None \<Rightarrow> [NewPc p])"
    "ensurePc False s1 = (p, s1)"
  using ensurePc_False_cases [OF assms] by (auto simp: ensurePc_def)

lemma ensurePc_pcRef: "ensurePc b st = (p, s1) \<Longrightarrow> pcRef s1 = Some p"
  by (auto simp: ensurePc_def Let_def split: option.splits if_splits)

lemma teardownPc_closed:
  "teardownPc st =
     st\<lparr>pcRef := None, dcRef := None, hasRemoteRef := False, pendingIceRef := [],
        effects := effects st @ (case dcRef st of Some d \<Rightarrow> [CloseDc d] | None \<Rightarrow> []) @
                   (case pcRef st of Some p \<Rightarrow> [ClosePc p] | None \<Rightarrow> [])\<rparr>"
  by (simp add: teardownPc_def Let_def split: option.splits)

lemma endable_iff: "endable p s = (pcRef s = Some p)"
  by (auto simp: endable_def end_call_def teardownPc_closed send_def split: option.splits)

text \<open>
  A function left alone: one step of \<open>finish\<close>, and the drain inside a handler, which
  is \<open>drainLoop\<close> over the rest of the queue, followed by the rest of the branch.
\<close>

lemma finish_step:
  "finish env t st =
     (case fst (resume env t st) of
        Done out \<Rightarrow> (out, snd (resume env t st))
      | Pending t' \<Rightarrow> finish env t' (snd (resume env t st)))"
  by (rule finish.simps)

lemma alone_Done: "alone env (Done out, s) = (out, s)"
  by (simp add: alone_def)

lemma alone_Pending: "alone env (Pending t, s) = finish env t s"
  by (simp add: alone_def)

lemma finish_alone: "finish env t st = alone env (resume env t st)"
  by (subst finish.simps) (simp add: alone_def)

declare finish.simps [simp del]

lemma alone_drainNext:
  "alone env (drainNext env p q k st) = alone env (afterDrain env p k (drainLoop env p q st))"
proof (induction q arbitrary: st)
  case Nil
  show ?case by simp
next
  case (Cons c q)
  show ?case
    by (cases "rtc_addIceCandidate env (effects st) p c")
       (simp_all add: addIceCandidate_def alone_Pending finish_alone Cons.IH)
qed

lemma finish_AwaitRemote:
  "finish env (AwaitRemote p None k) st =
     alone env (afterDrain env p k (drainIce env p (st\<lparr>hasRemoteRef := True\<rparr>)))"
  by (simp add: finish_alone Let_def alone_drainNext drainIce_def)

lemma alone_afterDrain_InOffer:
  "alone env (afterDrain env p (InOffer r) s) =
     (case rtc_createAnswer env (effects s) p of
        Inl err \<Rightarrow> (Rejected err, s\<lparr>effects := effects s @ [CreateAnswer p]\<rparr>)
      | Inr answer \<Rightarrow>
          (case rtc_setLocalDescription env (effects s @ [CreateAnswer p]) p answer of
             Some err \<Rightarrow>
               (Rejected err,
                s\<lparr>effects := effects s @ [CreateAnswer p, SetLocalDescription p answer]\<rparr>)
           | None \<Rightarrow>
               (Returned,
                s\<lparr>log := log s @ [if r_peerUsername r = []
                                     then ''Cannot reply with ANSWER because peer username is unknown.''
                                     else ''ANSWER sent''],
                   effects := effects s @ [CreateAnswer p, SetLocalDescription p answer] @
                     (if r_peerUsername r = [] then []
                      else case stompRef s of
                             Some c \<Rightarrow> [Publish c ''/app/webrtc.answer'' (answer_frame r answer)]
                           | None \<Rightarrow> [])\<rparr>)))"
  by (simp add: createAnswer_def setLocalDescription_def alone_Pending alone_Done finish_alone
      Let_def send_def logLine_def answer_frame_def split: sum.splits option.splits)

text \<open>
  The first step of an OFFER or ANSWER handler, and the handler left alone after the
  primitive has accepted or refused the remote description.
\<close>

lemma onSignal_negotiation_first:
  assumes "signal_for env (r_callId r) ty msg" and "ty = ''OFFER'' \<or> ty = ''ANSWER''"
    and "ensurePc False st = (p, s1)"
  shows "onSignal env r st msg =
           (Pending (AwaitRemote p (rtc_setRemoteDescription env (effects s1) p (sdp_of env msg))
                       (if ty = ''OFFER'' then InOffer r else InAnswer)),
            s1\<lparr>effects := effects s1 @ [SetRemoteDescription p (sdp_of env msg)]\<rparr>)"
  using assms
  by (auto simp: signal_for_def sdp_of_def onSignal_def Let_def setRemoteDescription_def)

lemma alone_negotiation_accepted:
  assumes "signal_for env (r_callId r) ty msg" and "ty = ''OFFER'' \<or> ty = ''ANSWER''"
    and "ensurePc False st = (p, s1)"
    and "rtc_setRemoteDescription env (effects s1) p (sdp_of env msg) = None"
  shows "alone env (onSignal env r st msg) =
           alone env (afterDrain env p (if ty = ''OFFER'' then InOffer r else InAnswer)
                        (drained env p (sdp_of env msg) s1))"
  by (simp add: onSignal_negotiation_first [OF assms(1,2,3)] assms(4) alone_Pending
      finish_AwaitRemote drained_def)

lemma alone_negotiation_refused:
  assumes "signal_for env (r_callId r) ty msg" and "ty = ''OFFER'' \<or> ty = ''ANSWER''"
    and "ensurePc False st = (p, s1)"
    and "rtc_setRemoteDescription env (effects s1) p (sdp_of env msg) = Some err"
  shows "alone env (onSignal env r st msg) =
           (Rejected err, s1\<lparr>effects := effects s1 @ [SetRemoteDescription p (sdp_of env msg)]\<rparr>)"
  by (simp add: onSignal_negotiation_first [OF assms(1,2,3)] assms(4) alone_Pending
      finish_alone alone_Done)

lemma startOffer_first:
  assumes "callId st \<noteq> []" and "peerUsername st \<noteq> []" and "ensurePc True st = (p, s1)"
  shows "startOffer env st =
           (Pending (AwaitCreateOffer p (rtc_createOffer env (effects s1) p) (current st)),
            s1\<lparr>effects := effects s1 @ [CreateOffer p]\<rparr>)"
  using assms by (simp add: startOffer_def createOffer_def)

lemmas demo_eval =
  onSignal_def Let_def ensurePc_def setRemoteDescription_def createAnswer_def
  setLocalDescription_def addIceCandidate_def createOffer_def send_def logLine_def
  demo_parse_simps demo_env_simps offer_payload_def ice_payload_def sdp_v0_def cand_def
  answer_v0_def offer_v0_def current_def demo_def

lemmas alone_eval =
  alone_Pending alone_Done finish_alone drainIce_closed

text \<open>
  Runs of the signal handler on the concrete callee, and the drain on the callee with
  buffered candidates.
\<close>

lemma demo_nosdp_alone:
  "alone demo_env (onSignal demo_env (current demo) demo offer_nosdp) =
     (Rejected ''TypeError'',
      demo\<lparr>pcRef := Some 1, allocated := 2,
        effects := [NewPc 1, SetRemoteDescription 1 JUndefined]\<rparr>)"
  by (simp add: demo_eval alone_eval)

lemma demo_drained:
  "drained demo_env_nocreate 1 sdp_v0 demo_buffered =
     demo_buffered\<lparr>hasRemoteRef := True, pendingIceRef := [],
       log := [''drain addIce error OperationError''],
       effects := [NewPc 1, SetRemoteDescription 1 sdp_v0, AddIceCandidate 1 (cand ''k1''),
                   AddIceCandidate 1 (cand ''bad''), AddIceCandidate 1 (cand ''k3'')]\<rparr>"
  "drained demo_env_nolocal 1 sdp_v0 demo_buffered =
     demo_buffered\<lparr>hasRemoteRef := True, pendingIceRef := [],
       log := [''drain addIce error OperationError''],
       effects := [NewPc 1, SetRemoteDescription 1 sdp_v0, AddIceCandidate 1 (cand ''k1''),
                   AddIceCandidate 1 (cand ''bad''), AddIceCandidate 1 (cand ''k3'')]\<rparr>"
  by (simp_all add: drained_closed demo_buffered_def demo_env_simps cand_def demo_def)

section \<open>Frames of another call\<close>

text \<open>
  The filter of \<open>onSignal\<close> lets a frame pass only when its \<^verbatim>\<open>callId\<close> is the one of the
  handler's render.
\<close>

lemma onSignal_filter:
  "js_get (safeParse env (body msg)) ''callId'' \<noteq> JStr (r_callId r) \<Longrightarrow>
     onSignal env r st msg = (Done Returned, st)"
  by (simp add: onSignal_def Let_def)

text \<open>
  C1. The handler that the bus runs is the one of the render in which \<^verbatim>\<open>Connect WS\<close> was
  clicked, so its filter compares with the \<^verbatim>\<open>callId\<close> of that time. Take the callee who
  connected while \<^verbatim>\<open>callId\<close> was \<^verbatim>\<open>c1\<close>. As long as the state is unchanged, an OFFER of
  call \<^verbatim>\<open>c2\<close> is discarded and the state stays as it was. A notification of call 42
  then sets \<^verbatim>\<open>callId\<close> to \<^verbatim>\<open>42\<close>. After that an OFFER of \<^verbatim>\<open>c1\<close>, which is not the
  component's call any more, is negotiated on a new peer connection and answered (the
  ANSWER addressed to the peer of that time, \<^verbatim>\<open>bob\<close>), and a candidate of call 42, the
  component's call, is discarded.
\<close>

theorem stale_callId_filter_run:
  "onSignal demo_env (current demo) demo offer_c2 = (Done Returned, demo) \<and>
   onCallNotif demo_env (current demo) demo notif_42 = (Returned, demo_notified) \<and>
   callId demo_notified = ''42'' \<and>
   js_get (safeParse demo_env (body offer_c1)) ''callId'' = JStr ''c1'' \<and>
   run demo_env (current demo) ([], demo_notified) [Frame offer_c1, Settle 0, Settle 0, Settle 0] =
     ([],
      demo_notified\<lparr>pcRef := Some 1, allocated := 2, hasRemoteRef := True,
        log := [''CALL NOTIF: INCOMING_CALL 42'', ''ANSWER sent''],
        effects := [NewPc 1, SetRemoteDescription 1 sdp_v0, CreateAnswer 1,
                    SetLocalDescription 1 answer_v0,
                    Publish 0 ''/app/webrtc.answer''
                      (JObj [(''type'', JStr ''ANSWER''), (''callId'', JStr ''c1''),
                             (''fromUserId'', JStr ''carol''), (''toUserId'', JStr ''bob''),
                             (''sdp'', answer_v0)])]\<rparr>) \<and>
   js_get (safeParse demo_env (body ice_42)) ''callId'' = JStr ''42'' \<and>
   run demo_env (current demo) ([], demo_notified) [Frame ice_42] = ([], demo_notified)"
  by (simp add: demo_eval onCallNotif_def nullish_def demo_notified_def)

section \<open>Candidates that arrive before the remote description\<close>

text \<open>
  C2. The callee receives three candidates before any remote description (they are
  buffered, the second is one the primitive will reject), then the OFFER. The remote
  description settles: the flag is set, the buffer is taken and the first buffered
  candidate is handed to the primitive. While that call is pending a fourth candidate
  arrives; the flag being set, it is handed to the primitive at once. Only then do the
  second and the third buffered candidate follow. The calls on the primitive are
  \<^verbatim>\<open>k1\<close>, \<^verbatim>\<open>k4\<close>, \<^verbatim>\<open>bad\<close>, \<^verbatim>\<open>k3\<close>: a candidate that was never buffered has
  overtaken two buffered ones. Two functions are then suspended: the drain, before its
  last step, and the handler of the fourth candidate.
\<close>

theorem candidate_overtakes_buffer_run:
  "run demo_env (current demo) ([], demo)
     [Frame ice_1, Frame ice_2, Frame ice_3, Frame offer_c1, Settle 0,
      Frame ice_4, Settle 0, Settle 0] =
     ([AwaitDrain 1 None [] (InOffer (current demo)), AwaitIce None],
      demo\<lparr>pcRef := Some 1, allocated := 2, hasRemoteRef := True,
        log := [''drain addIce error OperationError''],
        effects := [NewPc 1, SetRemoteDescription 1 sdp_v0,
                    AddIceCandidate 1 (cand ''k1''), AddIceCandidate 1 (cand ''k4''),
                    AddIceCandidate 1 (cand ''bad''), AddIceCandidate 1 (cand ''k3'')]\<rparr>)"
  by (simp add: demo_eval)

section \<open>Handling an OFFER\<close>

text \<open>
  C3, as the code has it. Let the handler be the one of the current render (\<^verbatim>\<open>me\<close>,
  \<^verbatim>\<open>peerUsername\<close> and \<^verbatim>\<open>callId\<close> as they were when it was subscribed), and let the
  primitive accept the remote description, create an answer and accept it as local
  description. An OFFER for the component's call then goes like this. Up to its first
  await the handler has made sure of a peer connection and handed it the remote
  description; the flag and the buffer are untouched. When that promise settles the
  flag is set and the buffer taken, and the first buffered candidate is handed over (or,
  with an empty buffer, the answer is asked for). Left alone to its end, the handler has
  made these calls in this order: the remote description, the buffered candidates in
  their order, \<^verbatim>\<open>createAnswer\<close>, the local description, and then, if a peer username is
  known and a bus client exists, exactly one ANSWER frame with that answer for the same
  call; it has logged the candidates the primitive rejected and then \<^verbatim>\<open>ANSWER sent\<close>.
  Without a peer username nothing is published and the log line says so.
\<close>

theorem offer_negotiation_sequence:
  assumes "signal_for env (callId st) ''OFFER'' msg"
    and "ensurePc False st = (p, s1)"
    and "rtc_setRemoteDescription env (effects s1) p (sdp_of env msg) = None"
    and "tr = effects s1 @ [SetRemoteDescription p (sdp_of env msg)] @
              map (AddIceCandidate p) (pendingIceRef st)"
    and "rtc_createAnswer env tr p = Inr answer"
    and "rtc_setLocalDescription env (tr @ [CreateAnswer p]) p answer = None"
  shows "onSignal env (current st) st msg =
           (Pending (AwaitRemote p None (InOffer (current st))),
            s1\<lparr>effects := effects s1 @ [SetRemoteDescription p (sdp_of env msg)]\<rparr>) \<and>
         (let s2 = snd (onSignal env (current st) st msg);
              s3 = snd (resume env (AwaitRemote p None (InOffer (current st))) s2)
          in hasRemoteRef s3 \<and> pendingIceRef s3 = [] \<and>
             effects s3 =
               effects s2 @
               (case pendingIceRef st of [] \<Rightarrow> [CreateAnswer p] | c # q \<Rightarrow> [AddIceCandidate p c])) \<and>
         alone env (onSignal env (current st) st msg) =
           (Returned,
            s1\<lparr>hasRemoteRef := True, pendingIceRef := [],
               log := log st @
                 map (\<lambda>e. ''drain addIce error '' @ e)
                   (drainErrors env p (effects s1 @ [SetRemoteDescription p (sdp_of env msg)])
                      (pendingIceRef st)) @
                 [if peerUsername st = []
                  then ''Cannot reply with ANSWER because peer username is unknown.''
                  else ''ANSWER sent''],
               effects := tr @ [CreateAnswer p, SetLocalDescription p answer] @
                 (if peerUsername st = [] then []
                  else case stompRef st of
                         Some c \<Rightarrow>
                           [Publish c ''/app/webrtc.answer'' (answer_frame (current st) answer)]
                       | None \<Rightarrow> [])\<rparr>)"
proof -
  note f = ensurePc_False_frame [OF assms(2)]
  have sg: "signal_for env (r_callId (current st)) ''OFFER'' msg"
    using assms(1) by (simp add: current_simps)
  have first: "onSignal env (current st) st msg =
           (Pending (AwaitRemote p None (InOffer (current st))),
            s1\<lparr>effects := effects s1 @ [SetRemoteDescription p (sdp_of env msg)]\<rparr>)"
    using onSignal_negotiation_first [OF sg _ assms(2)] assms(3) by simp
  have second: "let s2 = snd (onSignal env (current st) st msg);
              s3 = snd (resume env (AwaitRemote p None (InOffer (current st))) s2)
          in hasRemoteRef s3 \<and> pendingIceRef s3 = [] \<and>
             effects s3 =
               effects s2 @
               (case pendingIceRef st of [] \<Rightarrow> [CreateAnswer p] | c # q \<Rightarrow> [AddIceCandidate p c])"
    unfolding first using f(4)
    by (cases "pendingIceRef st")
       (simp_all add: Let_def createAnswer_def addIceCandidate_def)
  have third: "alone env (onSignal env (current st) st msg) =
           alone env (afterDrain env p (InOffer (current st)) (drained env p (sdp_of env msg) s1))"
    using alone_negotiation_accepted [OF sg _ assms(2) assms(3)] by simp
  have fin: "alone env (afterDrain env p (InOffer (current st)) (drained env p (sdp_of env msg) s1)) =
           (Returned,
            s1\<lparr>hasRemoteRef := True, pendingIceRef := [],
               log := log st @
                 map (\<lambda>e. ''drain addIce error '' @ e)
                   (drainErrors env p (effects s1 @ [SetRemoteDescription p (sdp_of env msg)])
                      (pendingIceRef st)) @
                 [if peerUsername st = []
                  then ''Cannot reply with ANSWER because peer username is unknown.''
                  else ''ANSWER sent''],
               effects := tr @ [CreateAnswer p, SetLocalDescription p answer] @
                 (if peerUsername st = [] then []
                  else case stompRef st of
                         Some c \<Rightarrow>
                           [Publish c ''/app/webrtc.answer'' (answer_frame (current st) answer)]
                       | None \<Rightarrow> [])\<rparr>)"
    using assms(4,5,6) f(4,5,9)
    by (simp add: alone_afterDrain_InOffer drained_closed current_simps del: afterDrain.simps)
  from first second third fin show ?thesis by simp
qed

text \<open>
  An OFFER reaching the callee that holds three buffered candidates.
\<close>

theorem offer_negotiation_sequence_witness:
  "onSignal demo_env (current demo_buffered) demo_buffered offer_c1 =
     (Pending (AwaitRemote 1 None (InOffer (current demo_buffered))),
      demo_buffered\<lparr>effects := [NewPc 1, SetRemoteDescription 1 sdp_v0]\<rparr>) \<and>
   (let s2 = snd (onSignal demo_env (current demo_buffered) demo_buffered offer_c1);
        s3 = snd (resume demo_env (AwaitRemote 1 None (InOffer (current demo_buffered))) s2)
    in hasRemoteRef s3 \<and> pendingIceRef s3 = [] \<and>
       effects s3 = effects s2 @ [AddIceCandidate 1 (cand ''k1'')]) \<and>
   alone demo_env (onSignal demo_env (current demo_buffered) demo_buffered offer_c1) =
     (Returned,
      demo_buffered\<lparr>hasRemoteRef := True, pendingIceRef := [],
        log := [''drain addIce error OperationError'', ''ANSWER sent''],
        effects :=
          [NewPc 1, SetRemoteDescription 1 sdp_v0,
           AddIceCandidate 1 (cand ''k1''), AddIceCandidate 1 (cand ''bad''),
           AddIceCandidate 1 (cand ''k3''),
           CreateAnswer 1, SetLocalDescription 1 answer_v0,
           Publish 0 ''/app/webrtc.answer''
             (JObj [(''type'', JStr ''ANSWER''), (''callId'', JStr ''c1''),
                    (''fromUserId'', JStr ''carol''), (''toUserId'', JStr ''bob''),
                    (''sdp'', answer_v0)])]\<rparr>)"
proof -
  let ?tr = "[NewPc 1, SetRemoteDescription 1 sdp_v0, AddIceCandidate 1 (cand ''k1''),
              AddIceCandidate 1 (cand ''bad''), AddIceCandidate 1 (cand ''k3'')]"
  have h1: "signal_for demo_env (callId demo_buffered) ''OFFER'' offer_c1"
    by (simp add: demo_signals demo_buffered_def demo_def)
  have h2: "ensurePc False demo_buffered = (1, demo_buffered)"
    by (simp add: ensurePc_def demo_buffered_def)
  have h3: "rtc_setRemoteDescription demo_env (effects demo_buffered) 1 (sdp_of demo_env offer_c1) = None"
    by (simp add: demo_env_simps demo_fields sdp_v0_def)
  have h4: "?tr = effects demo_buffered @ [SetRemoteDescription 1 (sdp_of demo_env offer_c1)] @
              map (AddIceCandidate 1) (pendingIceRef demo_buffered)"
    by (simp add: demo_buffered_def demo_fields)
  have h5: "rtc_createAnswer demo_env ?tr 1 = Inr answer_v0"
    by (simp add: demo_env_simps answer_v0_def)
  have h6: "rtc_setLocalDescription demo_env (?tr @ [CreateAnswer 1]) 1 answer_v0 = None"
    by (simp add: demo_env_simps)
  have e: "drainErrors demo_env 1
             (effects demo_buffered @ [SetRemoteDescription 1 (sdp_of demo_env offer_c1)])
             (pendingIceRef demo_buffered) = [''OperationError'']"
    by (simp add: demo_buffered_def demo_env_simps cand_def)
  note t = offer_negotiation_sequence [OF h1 h2 h3 h4 h5 h6]
  have a: "onSignal demo_env (current demo_buffered) demo_buffered offer_c1 =
     (Pending (AwaitRemote 1 None (InOffer (current demo_buffered))),
      demo_buffered\<lparr>effects := [NewPc 1, SetRemoteDescription 1 sdp_v0]\<rparr>)"
    using t [THEN conjunct1] by (simp add: demo_fields demo_buffered_def)
  have b: "let s2 = snd (onSignal demo_env (current demo_buffered) demo_buffered offer_c1);
        s3 = snd (resume demo_env (AwaitRemote 1 None (InOffer (current demo_buffered))) s2)
    in hasRemoteRef s3 \<and> pendingIceRef s3 = [] \<and>
       effects s3 = effects s2 @ [AddIceCandidate 1 (cand ''k1'')]"
    using t [THEN conjunct2, THEN conjunct1] by (simp add: demo_buffered_def)
  have c: "alone demo_env (onSignal demo_env (current demo_buffered) demo_buffered offer_c1) =
     (Returned,
      demo_buffered\<lparr>hasRemoteRef := True, pendingIceRef := [],
        log := [''drain addIce error OperationError'', ''ANSWER sent''],
        effects :=
          [NewPc 1, SetRemoteDescription 1 sdp_v0,
           AddIceCandidate 1 (cand ''k1''), AddIceCandidate 1 (cand ''bad''),
           AddIceCandidate 1 (cand ''k3''),
           CreateAnswer 1, SetLocalDescription 1 answer_v0,
           Publish 0 ''/app/webrtc.answer''
             (JObj [(''type'', JStr ''ANSWER''), (''callId'', JStr ''c1''),
                    (''fromUserId'', JStr ''carol''), (''toUserId'', JStr ''bob''),
                    (''sdp'', answer_v0)])]\<rparr>)"
    using t [THEN conjunct2, THEN conjunct2] unfolding e
    by (simp add: demo_fields answer_frame_def current_def demo_buffered_def demo_def)
  from a b c show ?thesis by blast
qed

text \<open>
  The claim as stated promises the ANSWER for every OFFER of the active call. With no
  peer username the negotiation runs to its end and no frame leaves the component.
\<close>

theorem offer_without_peer_counterexample:
  "alone demo_env (onSignal demo_env (current demo_nopeer) demo_nopeer offer_c1) =
     (Returned,
      demo_nopeer\<lparr>pcRef := Some 1, allocated := 2, hasRemoteRef := True,
        log := [''Cannot reply with ANSWER because peer username is unknown.''],
        effects := [NewPc 1, SetRemoteDescription 1 sdp_v0, CreateAnswer 1,
                    SetLocalDescription 1 answer_v0]\<rparr>)"
  by (simp add: demo_eval alone_eval demo_nopeer_def)

section \<open>The addressee of the ANSWER\<close>

text \<open>
  Signal handlers that were subscribed with the render \<open>r\<close> keep the component's \<^verbatim>\<open>me\<close>,
  \<^verbatim>\<open>peerUsername\<close>, \<^verbatim>\<open>callId\<close> and client, publish nothing but ANSWER frames built from \<open>r\<close>,
  and leave behind only tasks of \<open>r\<close>, whatever the order in which the frames arrive and
  the awaited calls settle.
\<close>

lemma answers_of_simps:
  "answers_of r cl []"
  "answers_of r cl (xs @ ys) = (answers_of r cl xs \<and> answers_of r cl ys)"
  by (simp_all add: answers_of_def)

lemma onSignal_signal_step:
  assumes "onSignal env r st m = (pr, s)"
  shows "(\<forall>t. pr = Pending t \<longrightarrow> of_render r t) \<and> stompRef s = stompRef st \<and>
         (\<exists>new. effects s = effects st @ new \<and> answers_of r (stompRef st) new)"
  using assms
  by (cases "pcRef st")
     (auto simp: onSignal_def Let_def ensurePc_def setRemoteDescription_def addIceCandidate_def
        answers_of_def is_publish_def split: if_splits)

lemma drainNext_signal_step:
  assumes "drainNext env p q k st = (pr, s)" and "k = InOffer r \<or> k = InAnswer"
  shows "(\<forall>t. pr = Pending t \<longrightarrow> of_render r t) \<and> stompRef s = stompRef st \<and>
         (\<exists>new. effects s = effects st @ new \<and> answers_of r (stompRef st) new)"
  using assms
  by (cases q)
     (auto simp: Let_def addIceCandidate_def createAnswer_def logLine_def
        answers_of_def is_publish_def)

lemma resume_signal_step:
  assumes "resume env t st = (pr, s)" and "of_render r t"
  shows "(\<forall>t'. pr = Pending t' \<longrightarrow> of_render r t') \<and> stompRef s = stompRef st \<and>
         (\<exists>new. effects s = effects st @ new \<and> answers_of r (stompRef st) new)"
proof (cases t)
  case (AwaitRemote p res k)
  show ?thesis
  proof (cases res)
    case None
    with AwaitRemote assms
    have d: "drainNext env p (pendingIceRef st) k (st\<lparr>hasRemoteRef := True, pendingIceRef := []\<rparr>) = (pr, s)"
      and k: "k = InOffer r \<or> k = InAnswer"
      by (simp_all add: Let_def)
    from drainNext_signal_step [OF d k] show ?thesis by simp
  next
    case (Some err)
    with AwaitRemote assms show ?thesis by (auto simp: answers_of_def)
  qed
next
  case (AwaitDrain p res queue k)
  with assms
  have d: "drainNext env p queue k
             (case res of Some err \<Rightarrow> logLine (''drain addIce error '' @ err) st | None \<Rightarrow> st) = (pr, s)"
    and k: "k = InOffer r \<or> k = InAnswer"
    by simp_all
  from drainNext_signal_step [OF d k] show ?thesis
    by (cases res) (simp_all add: logLine_def)
next
  case (AwaitCreateAnswer p res r')
  with assms show ?thesis
    by (cases res) (auto simp: Let_def setLocalDescription_def answers_of_def is_publish_def)
next
  case (AwaitLocalAnswer p answer res r')
  with assms show ?thesis
    by (cases res; cases "stompRef st")
       (auto simp: send_def logLine_def answers_of_def is_publish_def answer_frame_def
          split: if_splits)
next
  case (AwaitIce res)
  with assms show ?thesis
    by (cases res) (auto simp: logLine_def answers_of_def)
next
  case (AwaitCreateOffer p res r')
  with assms show ?thesis by simp
next
  case (AwaitLocalOffer p offer res r')
  with assms show ?thesis by simp
qed

lemma step_signal:
  assumes "step env r (ts, st) e = (ts', s)" and "is_signal_event e"
    and "list_all (of_render r) ts"
  shows "list_all (of_render r) ts' \<and> stompRef s = stompRef st \<and>
         (\<exists>new. effects s = effects st @ new \<and> answers_of r (stompRef st) new)"
proof (cases e)
  case (Frame m)
  obtain pr s0 where o: "onSignal env r st m = (pr, s0)" by (cases "onSignal env r st m")
  from onSignal_signal_step [OF o] Frame assms o show ?thesis
    by (cases pr) auto
next
  case (Notif m)
  with assms show ?thesis by simp
next
  case (Settle i)
  show ?thesis
  proof (cases "i < length ts")
    case False
    with Settle assms show ?thesis by (auto simp: answers_of_def)
  next
    case True
    obtain pr s0 where o: "resume env (ts ! i) st = (pr, s0)" by (cases "resume env (ts ! i) st")
    from True assms(3) have "of_render r (ts ! i)" by (simp add: list_all_length)
    note q = resume_signal_step [OF o this]
    from assms(3) have rest: "list_all (of_render r) (take i ts @ drop (Suc i) ts)"
      by (auto simp: list_all_iff dest: in_set_takeD in_set_dropD)
    have upd: "\<And>t'. of_render r t' \<Longrightarrow> list_all (of_render r) (ts[i := t'])"
      using assms(3) by (auto simp: list_all_iff dest!: set_update_subset_insert [THEN subsetD])
    show ?thesis
    proof (cases pr)
      case (Done out)
      with q Settle True assms(1) o rest show ?thesis by auto
    next
      case (Pending t')
      with q have "of_render r t'" by simp
      from upd [OF this] q Pending Settle True assms(1) o show ?thesis by auto
    qed
  qed
qed

lemma run_signal:
  assumes "list_all is_signal_event es" and "list_all (of_render r) ts"
  shows "stompRef (snd (run env r (ts, st) es)) = stompRef st \<and>
         (\<exists>new. effects (snd (run env r (ts, st) es)) = effects st @ new \<and>
                answers_of r (stompRef st) new)"
  using assms
proof (induction es arbitrary: ts st)
  case Nil
  show ?case by (simp add: answers_of_def)
next
  case (Cons e es)
  obtain ts' s where o: "step env r (ts, st) e = (ts', s)" by (cases "step env r (ts, st) e")
  from Cons.prems have e: "is_signal_event e" and es: "list_all is_signal_event es" by simp_all
  from step_signal [OF o e Cons.prems(2)] obtain new where
    s: "list_all (of_render r) ts'" "stompRef s = stompRef st" "effects s = effects st @ new"
       "answers_of r (stompRef st) new"
    by blast
  from Cons.IH [OF es s(1), of s] obtain new' where
    n: "stompRef (snd (run env r (ts', s) es)) = stompRef s"
       "effects (snd (run env r (ts', s) es)) = effects s @ new'"
       "answers_of r (stompRef s) new'"
    by blast
  from o s n show ?case
    by (auto simp: answers_of_simps intro!: exI [of _ "new @ new'"])
qed

lemma onSignal_current:
  "current (snd (onSignal env r st m)) = current st"
  by (cases "pcRef st")
     (auto simp: onSignal_def Let_def ensurePc_def setRemoteDescription_def addIceCandidate_def
        current_def split: if_splits)

lemma drainNext_current:
  "current (snd (drainNext env p q k st)) = current st"
  by (cases q; cases k)
     (auto simp: Let_def addIceCandidate_def createAnswer_def logLine_def current_def)

lemma resume_current:
  "current (snd (resume env t st)) = current st"
proof (cases t)
  case (AwaitRemote p res k)
  then show ?thesis
    by (cases res) (simp_all add: Let_def drainNext_current [unfolded current_def] current_def)
next
  case (AwaitDrain p res queue k)
  then show ?thesis
    by (cases res) (simp_all add: drainNext_current [unfolded current_def] current_def logLine_def)
next
  case (AwaitCreateAnswer p res r')
  then show ?thesis
    by (cases res) (auto simp: Let_def setLocalDescription_def current_def)
next
  case (AwaitLocalAnswer p answer res r')
  then show ?thesis
    by (cases res; cases "stompRef st")
       (auto simp: send_def logLine_def current_def split: if_splits)
next
  case (AwaitIce res)
  then show ?thesis by (cases res) (auto simp: logLine_def current_def)
next
  case (AwaitCreateOffer p res r')
  then show ?thesis
    by (cases res) (auto simp: Let_def setLocalDescription_def current_def)
next
  case (AwaitLocalOffer p offer res r')
  then show ?thesis
    by (cases res; cases "stompRef st")
       (auto simp: send_def logLine_def current_def split: if_splits)
qed

lemma step_current:
  assumes "is_signal_event e"
  shows "current (snd (step env r (ts, st) e)) = current st"
proof (cases e)
  case (Frame m)
  with onSignal_current [of env r st m] show ?thesis
    by (cases "onSignal env r st m"; cases "fst (onSignal env r st m)") auto
next
  case (Notif m)
  with assms show ?thesis by simp
next
  case (Settle i)
  with resume_current [of env "ts ! i" st] show ?thesis
    by (cases "resume env (ts ! i) st"; cases "fst (resume env (ts ! i) st)") auto
qed

lemma run_current:
  assumes "list_all is_signal_event es"
  shows "current (snd (run env r (ts, st) es)) = current st"
  using assms
proof (induction es arbitrary: ts st)
  case Nil
  show ?case by simp
next
  case (Cons e es)
  obtain ts' s where o: "step env r (ts, st) e = (ts', s)" by (cases "step env r (ts, st) e")
  from Cons.prems have e: "is_signal_event e" and es: "list_all is_signal_event es" by simp_all
  from step_current [OF e, of env r ts st] o have "current s = current st" by simp
  with Cons.IH [OF es, of ts' s] o show ?case by simp
qed

text \<open>
  C4, as the code has it. Let the handler be the one of the current render, and let
  signal frames arrive and awaited calls settle in any order. Every frame that is
  published is an ANSWER for the component's call, sent from \<^verbatim>\<open>me\<close> to the component's
  \<^verbatim>\<open>peerUsername\<close>, which the handlers do not change; the \<^verbatim>\<open>fromUserId\<close> of the OFFER is not
  read.
\<close>

theorem answer_addressed_to_peerUsername:
  assumes "list_all is_signal_event es"
    and "Publish c dest b \<in>
           set (drop (length (effects st)) (effects (snd (run env (current st) ([], st) es))))"
  shows "dest = ''/app/webrtc.answer'' \<and>
         js_get b ''type'' = JStr ''ANSWER'' \<and>
         js_get b ''callId'' = JStr (callId st) \<and>
         js_get b ''fromUserId'' = JStr (me st) \<and>
         js_get b ''toUserId'' = JStr (peerUsername st) \<and>
         stompRef st = Some c \<and>
         current (snd (run env (current st) ([], st) es)) = current st"
proof -
  from run_signal [OF assms(1), of "current st" "[]" env st] obtain new where
    n: "effects (snd (run env (current st) ([], st) es)) = effects st @ new"
       "answers_of (current st) (stompRef st) new"
    by auto
  from assms(2) n(1) have "Publish c dest b \<in> set new" by simp
  with n(2) have "is_answer_of (current st) (stompRef st) (Publish c dest b)"
    unfolding answers_of_def list_all_iff by blast
  then have a: "stompRef st = Some c" "dest = ''/app/webrtc.answer''"
    and "\<exists>answer. b = answer_frame (current st) answer"
    by auto
  then obtain answer where "b = answer_frame (current st) answer" by blast
  with a run_current [OF assms(1), of env "current st" "[]" st] show ?thesis
    by (simp add: answer_frame_def current_simps)
qed

text \<open>
  The callee whose peer is \<^verbatim>\<open>bob\<close> handles an OFFER and the three calls it awaits settle.
\<close>

lemma demo_offer_run:
  "run demo_env (current demo) ([], demo) [Frame offer_c1, Settle 0, Settle 0, Settle 0] =
     ([],
      demo\<lparr>pcRef := Some 1, allocated := 2, hasRemoteRef := True, log := [''ANSWER sent''],
        effects := [NewPc 1, SetRemoteDescription 1 sdp_v0, CreateAnswer 1,
                    SetLocalDescription 1 answer_v0,
                    Publish 0 ''/app/webrtc.answer''
                      (JObj [(''type'', JStr ''ANSWER''), (''callId'', JStr ''c1''),
                             (''fromUserId'', JStr ''carol''), (''toUserId'', JStr ''bob''),
                             (''sdp'', answer_v0)])]\<rparr>)"
  by (simp add: demo_eval)

text \<open>
  The ANSWER of that run.
\<close>

theorem answer_addressed_to_peerUsername_witness:
  "js_get (answer_frame (current demo) answer_v0) ''toUserId'' = JStr ''bob'' \<and>
   js_get (answer_frame (current demo) answer_v0) ''fromUserId'' = JStr ''carol'' \<and>
   js_get (answer_frame (current demo) answer_v0) ''callId'' = JStr ''c1'' \<and>
   js_get (answer_frame (current demo) answer_v0) ''type'' = JStr ''ANSWER'' \<and>
   stompRef demo = Some 0"
proof -
  have h1: "list_all is_signal_event [Frame offer_c1, Settle 0, Settle 0, Settle 0]"
    by simp
  have h2: "Publish 0 ''/app/webrtc.answer'' (answer_frame (current demo) answer_v0) \<in>
        set (drop (length (effects demo))
               (effects (snd (run demo_env (current demo) ([], demo)
                                [Frame offer_c1, Settle 0, Settle 0, Settle 0]))))"
    unfolding demo_offer_run
    by (simp add: answer_frame_def current_def demo_def)
  from answer_addressed_to_peerUsername [OF h1 h2] show ?thesis
    by (simp add: demo_def)
qed

text \<open>
  The claim as stated addresses the ANSWER to the sender of the OFFER. Here the OFFER
  comes from \<^verbatim>\<open>alice\<close> and the one frame published goes to \<^verbatim>\<open>bob\<close>.
\<close>

theorem answer_not_addressed_to_sender_counterexample:
  "js_get (safeParse demo_env (body offer_c1)) ''fromUserId'' = JStr ''alice'' \<and>
   filter is_publish
     (effects (snd (run demo_env (current demo) ([], demo)
                      [Frame offer_c1, Settle 0, Settle 0, Settle 0]))) =
     [Publish 0 ''/app/webrtc.answer''
        (JObj [(''type'', JStr ''ANSWER''), (''callId'', JStr ''c1''),
               (''fromUserId'', JStr ''carol''), (''toUserId'', JStr ''bob''),
               (''sdp'', answer_v0)])]"
  unfolding demo_offer_run
  by (simp add: is_publish_def demo_parse_simps offer_payload_def)

section \<open>Ending a call twice\<close>

text \<open>
  C5, as the code has it. The component keeps no call status; a call that has been
  ended is one whose session is torn down. \<open>teardownPc\<close> run a second time changes
  nothing. After \<open>end_call\<close>, and again after a second \<open>end_call\<close>, there is no peer
  connection, no data channel, the remote-ready flag is off and the candidate buffer is
  empty. The first \<open>end_call\<close> closes the data channel and the peer connection once
  each, if they exist, and the second one closes nothing. The second \<open>end_call\<close> is not
  without effect, though: it is exactly one more \<^verbatim>\<open>/call.end\<close> frame handed to the bus
  client, if there is one.
\<close>

theorem teardown_idempotent:
  "teardownPc (teardownPc st) = teardownPc st \<and>
   pcRef (end_call st) = None \<and> dcRef (end_call st) = None \<and>
   \<not> hasRemoteRef (end_call st) \<and> pendingIceRef (end_call st) = [] \<and>
   pcRef (end_call (end_call st)) = None \<and> dcRef (end_call (end_call st)) = None \<and>
   \<not> hasRemoteRef (end_call (end_call st)) \<and> pendingIceRef (end_call (end_call st)) = [] \<and>
   filter is_close (effects (end_call st)) =
     filter is_close (effects st) @
     (case dcRef st of Some d \<Rightarrow> [CloseDc d] | None \<Rightarrow> []) @
     (case pcRef st of Some p \<Rightarrow> [ClosePc p] | None \<Rightarrow> []) \<and>
   filter is_close (effects (end_call (end_call st))) = filter is_close (effects (end_call st)) \<and>
   end_call (end_call st) =
     send ''/call.end'' (JObj [(''callId'', JStr (callId st))]) (end_call st)"
  by (simp add: teardownPc_closed end_call_def send_def is_close_def split: option.splits)

text \<open>
  The claim as stated makes the second \<^verbatim>\<open>end()\<close> a no-op. On the connected callee with
  a negotiated session, the second \<^verbatim>\<open>end()\<close> publishes a second \<^verbatim>\<open>/call.end\<close> frame.
\<close>

theorem second_end_publishes_counterexample:
  "effects (end_call demo_ready) =
     [NewPc 1, SetRemoteDescription 1 sdp_v0,
      Publish 0 ''/app/call.end'' (JObj [(''callId'', JStr ''c1'')]), ClosePc 1] \<and>
   effects (end_call (end_call demo_ready)) =
     [NewPc 1, SetRemoteDescription 1 sdp_v0,
      Publish 0 ''/app/call.end'' (JObj [(''callId'', JStr ''c1'')]), ClosePc 1,
      Publish 0 ''/app/call.end'' (JObj [(''callId'', JStr ''c1'')])]"
  by (simp add: end_call_def teardownPc_closed send_def demo_ready_def demo_def)

section \<open>A candidate that the primitive rejects\<close>



section \<open>Lifecycle actions\<close>

text \<open>
  C7, as the code has it. The component keeps no call status and checks none:
  \<open>accept\<close> and \<open>reject\<close> hand their frame for the current \<^verbatim>\<open>callId\<close> to the bus
  client whenever there is one, and change nothing else. That holds after \<open>end_call\<close>
  as in any other state.
\<close>

theorem lifecycle_actions_unchecked:
  "accept st =
     st\<lparr>effects := effects st @
        (case stompRef st of
           Some c \<Rightarrow> [Publish c ''/app/call.accept'' (JObj [(''callId'', JStr (callId st))])]
         | None \<Rightarrow> [])\<rparr> \<and>
   reject st =
     st\<lparr>effects := effects st @
        (case stompRef st of
           Some c \<Rightarrow> [Publish c ''/app/call.reject''
                        (JObj [(''callId'', JStr (callId st)), (''reason'', JStr ''busy'')])]
         | None \<Rightarrow> [])\<rparr> \<and>
   effects (accept (end_call st)) =
     effects (end_call st) @
       (case stompRef st of
          Some c \<Rightarrow> [Publish c ''/app/call.accept'' (JObj [(''callId'', JStr (callId st))])]
        | None \<Rightarrow> [])"
  by (simp add: accept_def reject_def send_def end_call_def teardownPc_closed split: option.splits)

text \<open>
  The claim as stated lets \<^verbatim>\<open>accept()\<close> fail on an ended call without publishing. On
  the connected callee, \<^verbatim>\<open>accept()\<close> after \<^verbatim>\<open>end()\<close> publishes the accept frame.
\<close>

theorem accept_after_end_counterexample:
  "effects (accept (end_call demo)) =
     [Publish 0 ''/app/call.end'' (JObj [(''callId'', JStr ''c1'')]),
      Publish 0 ''/app/call.accept'' (JObj [(''callId'', JStr ''c1'')])]"
  by (simp add: accept_def send_def end_call_def teardownPc_closed demo_def)

section \<open>A negotiation step that fails\<close>

text \<open>
  C8, as the code has it. Nothing in the component catches the failure of
  \<^verbatim>\<open>setRemoteDescription\<close>, \<^verbatim>\<open>createAnswer\<close>, \<^verbatim>\<open>setLocalDescription\<close> or \<^verbatim>\<open>createOffer\<close>.
  For each of them, in the handler of an OFFER or an ANSWER and in \<open>startOffer\<close>: when
  the primitive rejects the call, the function left alone ends rejected with that
  error, in the state it had reached when it made the call, the call recorded. So the
  log has no line for the failure (after an accepted remote description it has the
  lines of the drain and no other), nothing is published, nothing is closed, the flag
  and the buffer are as the steps before left them, and the peer connection is still
  the component's: \<open>end_call\<close> closes it and lets go of it. The last five equations say
  the same of the single step, whatever has been handled since the call was made: the
  function ends rejected and leaves the state as it finds it.
\<close>

theorem negotiation_failure_rejects:
  "((signal_for env (r_callId r) ''OFFER'' msg \<or> signal_for env (r_callId r) ''ANSWER'' msg) \<and>
    ensurePc False st = (p, s1) \<and>
    rtc_setRemoteDescription env (effects s1) p (sdp_of env msg) = Some err \<longrightarrow>
    (let s' = s1\<lparr>effects := effects s1 @ [SetRemoteDescription p (sdp_of env msg)]\<rparr>
     in alone env (onSignal env r st msg) = (Rejected err, s') \<and> endable p s')) \<and>
   (signal_for env (r_callId r) ''OFFER'' msg \<and>
    ensurePc False st = (p, s1) \<and>
    rtc_setRemoteDescription env (effects s1) p (sdp_of env msg) = None \<and>
    rtc_createAnswer env (effects (drained env p (sdp_of env msg) s1)) p = Inl err \<longrightarrow>
    (let d = drained env p (sdp_of env msg) s1;
         s' = d\<lparr>effects := effects d @ [CreateAnswer p]\<rparr>
     in alone env (onSignal env r st msg) = (Rejected err, s') \<and> endable p s')) \<and>
   (signal_for env (r_callId r) ''OFFER'' msg \<and>
    ensurePc False st = (p, s1) \<and>
    rtc_setRemoteDescription env (effects s1) p (sdp_of env msg) = None \<and>
    rtc_createAnswer env (effects (drained env p (sdp_of env msg) s1)) p = Inr answer \<and>
    rtc_setLocalDescription env
      (effects (drained env p (sdp_of env msg) s1) @ [CreateAnswer p]) p answer = Some err \<longrightarrow>
    (let d = drained env p (sdp_of env msg) s1;
         s' = d\<lparr>effects := effects d @ [CreateAnswer p, SetLocalDescription p answer]\<rparr>
     in alone env (onSignal env r st msg) = (Rejected err, s') \<and> endable p s')) \<and>
   (callId st \<noteq> [] \<and> peerUsername st \<noteq> [] \<and> ensurePc True st = (p, s1) \<and>
    rtc_createOffer env (effects s1) p = Inl err \<longrightarrow>
    (let s' = s1\<lparr>effects := effects s1 @ [CreateOffer p]\<rparr>
     in alone env (startOffer env st) = (Rejected err, s') \<and> endable p s')) \<and>
   (callId st \<noteq> [] \<and> peerUsername st \<noteq> [] \<and> ensurePc True st = (p, s1) \<and>
    rtc_createOffer env (effects s1) p = Inr offer \<and>
    rtc_setLocalDescription env (effects s1 @ [CreateOffer p]) p offer = Some err \<longrightarrow>
    (let s' = s1\<lparr>effects := effects s1 @ [CreateOffer p, SetLocalDescription p offer]\<rparr>
     in alone env (startOffer env st) = (Rejected err, s') \<and> endable p s')) \<and>
   resume env (AwaitRemote p (Some err) k) st = (Done (Rejected err), st) \<and>
   resume env (AwaitCreateAnswer p (Inl err) r) st = (Done (Rejected err), st) \<and>
   resume env (AwaitLocalAnswer p answer (Some err) r) st = (Done (Rejected err), st) \<and>
   resume env (AwaitCreateOffer p (Inl err) r) st = (Done (Rejected err), st) \<and>
   resume env (AwaitLocalOffer p offer (Some err) r) st = (Done (Rejected err), st)"
proof (intro conjI impI)
  assume a: "(signal_for env (r_callId r) ''OFFER'' msg \<or> signal_for env (r_callId r) ''ANSWER'' msg) \<and>
    ensurePc False st = (p, s1) \<and>
    rtc_setRemoteDescription env (effects s1) p (sdp_of env msg) = Some err"
  then have e: "ensurePc False st = (p, s1)"
    and x: "rtc_setRemoteDescription env (effects s1) p (sdp_of env msg) = Some err"
    by simp_all
  from a obtain ty where t: "signal_for env (r_callId r) ty msg" "ty = ''OFFER'' \<or> ty = ''ANSWER''"
    by blast
  show "let s' = s1\<lparr>effects := effects s1 @ [SetRemoteDescription p (sdp_of env msg)]\<rparr>
     in alone env (onSignal env r st msg) = (Rejected err, s') \<and> endable p s'"
    using alone_negotiation_refused [OF t e x] ensurePc_pcRef [OF e]
    by (simp add: endable_iff)
next
  assume a: "signal_for env (r_callId r) ''OFFER'' msg \<and>
    ensurePc False st = (p, s1) \<and>
    rtc_setRemoteDescription env (effects s1) p (sdp_of env msg) = None \<and>
    rtc_createAnswer env (effects (drained env p (sdp_of env msg) s1)) p = Inl err"
  then have g: "signal_for env (r_callId r) ''OFFER'' msg" and e: "ensurePc False st = (p, s1)"
    and x: "rtc_setRemoteDescription env (effects s1) p (sdp_of env msg) = None"
    and y: "rtc_createAnswer env (effects (drained env p (sdp_of env msg) s1)) p = Inl err"
    by simp_all
  have "pcRef (drained env p (sdp_of env msg) s1) = Some p"
    using ensurePc_pcRef [OF e] by (simp add: drained_closed)
  then show "let d = drained env p (sdp_of env msg) s1;
         s' = d\<lparr>effects := effects d @ [CreateAnswer p]\<rparr>
     in alone env (onSignal env r st msg) = (Rejected err, s') \<and> endable p s'"
    using alone_negotiation_accepted [OF g _ e x] y
    by (simp add: alone_afterDrain_InOffer endable_iff Let_def del: afterDrain.simps)
next
  assume a: "signal_for env (r_callId r) ''OFFER'' msg \<and>
    ensurePc False st = (p, s1) \<and>
    rtc_setRemoteDescription env (effects s1) p (sdp_of env msg) = None \<and>
    rtc_createAnswer env (effects (drained env p (sdp_of env msg) s1)) p = Inr answer \<and>
    rtc_setLocalDescription env
      (effects (drained env p (sdp_of env msg) s1) @ [CreateAnswer p]) p answer = Some err"
  then have g: "signal_for env (r_callId r) ''OFFER'' msg" and e: "ensurePc False st = (p, s1)"
    and x: "rtc_setRemoteDescription env (effects s1) p (sdp_of env msg) = None"
    and y: "rtc_createAnswer env (effects (drained env p (sdp_of env msg) s1)) p = Inr answer"
    and z: "rtc_setLocalDescription env
      (effects (drained env p (sdp_of env msg) s1) @ [CreateAnswer p]) p answer = Some err"
    by simp_all
  have "pcRef (drained env p (sdp_of env msg) s1) = Some p"
    using ensurePc_pcRef [OF e] by (simp add: drained_closed)
  then show "let d = drained env p (sdp_of env msg) s1;
         s' = d\<lparr>effects := effects d @ [CreateAnswer p, SetLocalDescription p answer]\<rparr>
     in alone env (onSignal env r st msg) = (Rejected err, s') \<and> endable p s'"
    using alone_negotiation_accepted [OF g _ e x] y z
    by (simp add: alone_afterDrain_InOffer endable_iff Let_def del: afterDrain.simps)
next
  assume a: "callId st \<noteq> [] \<and> peerUsername st \<noteq> [] \<and> ensurePc True st = (p, s1) \<and>
    rtc_createOffer env (effects s1) p = Inl err"
  then have e: "ensurePc True st = (p, s1)" by simp
  from a startOffer_first [of st p s1 env] ensurePc_pcRef [OF e]
  show "let s' = s1\<lparr>effects := effects s1 @ [CreateOffer p]\<rparr>
     in alone env (startOffer env st) = (Rejected err, s') \<and> endable p s'"
    by (simp add: alone_Pending finish_alone alone_Done endable_iff)
next
  assume a: "callId st \<noteq> [] \<and> peerUsername st \<noteq> [] \<and> ensurePc True st = (p, s1) \<and>
    rtc_createOffer env (effects s1) p = Inr offer \<and>
    rtc_setLocalDescription env (effects s1 @ [CreateOffer p]) p offer = Some err"
  then have e: "ensurePc True st = (p, s1)" by simp
  from a startOffer_first [of st p s1 env] ensurePc_pcRef [OF e]
  show "let s' = s1\<lparr>effects := effects s1 @ [CreateOffer p, SetLocalDescription p offer]\<rparr>
     in alone env (startOffer env st) = (Rejected err, s') \<and> endable p s'"
    by (simp add: alone_Pending finish_alone alone_Done endable_iff setLocalDescription_def)
qed simp_all

text \<open>
  An OFFER without a description, which the primitive rejects; an OFFER on the callee
  with buffered candidates when the primitive cannot create an answer, and when it
  rejects the local description; \<open>startOffer\<close> when the primitive cannot create an
  offer, and when it rejects the local description.
\<close>

theorem negotiation_failure_rejects_witness:
  "alone demo_env (onSignal demo_env (current demo) demo offer_nosdp) =
     (Rejected ''TypeError'',
      demo\<lparr>pcRef := Some 1, allocated := 2,
        effects := [NewPc 1, SetRemoteDescription 1 JUndefined]\<rparr>) \<and>
   endable 1 (demo\<lparr>pcRef := Some 1, allocated := 2,
                effects := [NewPc 1, SetRemoteDescription 1 JUndefined]\<rparr>) \<and>
   alone demo_env_nocreate (onSignal demo_env_nocreate (current demo) demo_buffered offer_c1) =
     (Rejected ''InvalidStateError'',
      demo_buffered\<lparr>hasRemoteRef := True, pendingIceRef := [],
        log := [''drain addIce error OperationError''],
        effects := [NewPc 1, SetRemoteDescription 1 sdp_v0, AddIceCandidate 1 (cand ''k1''),
                    AddIceCandidate 1 (cand ''bad''), AddIceCandidate 1 (cand ''k3''),
                    CreateAnswer 1]\<rparr>) \<and>
   alone demo_env_nolocal (onSignal demo_env_nolocal (current demo) demo_buffered offer_c1) =
     (Rejected ''InvalidAccessError'',
      demo_buffered\<lparr>hasRemoteRef := True, pendingIceRef := [],
        log := [''drain addIce error OperationError''],
        effects := [NewPc 1, SetRemoteDescription 1 sdp_v0, AddIceCandidate 1 (cand ''k1''),
                    AddIceCandidate 1 (cand ''bad''), AddIceCandidate 1 (cand ''k3''),
                    CreateAnswer 1, SetLocalDescription 1 answer_v0]\<rparr>) \<and>
   alone demo_env_nocreate (startOffer demo_env_nocreate demo) =
     (Rejected ''InvalidStateError'',
      demo\<lparr>pcRef := Some 1, dcRef := Some 2, allocated := 3,
        effects := [NewPc 1, CreateDataChannel 1 ''test'' 2, CreateOffer 1]\<rparr>) \<and>
   alone demo_env_nolocal (startOffer demo_env_nolocal demo) =
     (Rejected ''InvalidAccessError'',
      demo\<lparr>pcRef := Some 1, dcRef := Some 2, allocated := 3,
        effects := [NewPc 1, CreateDataChannel 1 ''test'' 2, CreateOffer 1,
                    SetLocalDescription 1 offer_v0]\<rparr>)"
proof -
  let ?s1 = "demo\<lparr>pcRef := Some 1, allocated := 2, effects := [NewPc 1]\<rparr>"
  let ?c1 = "demo\<lparr>pcRef := Some 1, dcRef := Some 2, allocated := 3,
                effects := [NewPc 1, CreateDataChannel 1 ''test'' 2]\<rparr>"
  have g: "signal_for demo_env (r_callId (current demo)) ''OFFER'' offer_c1"
    "signal_for demo_env (r_callId (current demo)) ''OFFER'' offer_nosdp"
    by (simp_all add: demo_signals current_def demo_def)
  have e1: "ensurePc False demo = (1, ?s1)" by (simp add: ensurePc_def demo_def)
  have e2: "ensurePc False demo_buffered = (1, demo_buffered)"
    by (simp add: ensurePc_def demo_buffered_def)
  have e3: "ensurePc True demo = (1, ?c1)" by (simp add: ensurePc_def demo_def Let_def)
  have n: "callId demo \<noteq> []" "peerUsername demo \<noteq> []" by (simp_all add: demo_def)
  have h1: "(signal_for demo_env (r_callId (current demo)) ''OFFER'' offer_nosdp \<or>
             signal_for demo_env (r_callId (current demo)) ''ANSWER'' offer_nosdp) \<and>
            ensurePc False demo = (1, ?s1) \<and>
            rtc_setRemoteDescription demo_env (effects ?s1) 1 (sdp_of demo_env offer_nosdp) =
              Some ''TypeError''"
    using g e1 by (simp add: demo_fields demo_env_simps)
  have h2: "signal_for demo_env_nocreate (r_callId (current demo)) ''OFFER'' offer_c1 \<and>
            ensurePc False demo_buffered = (1, demo_buffered) \<and>
            rtc_setRemoteDescription demo_env_nocreate (effects demo_buffered) 1
              (sdp_of demo_env_nocreate offer_c1) = None \<and>
            rtc_createAnswer demo_env_nocreate
              (effects (drained demo_env_nocreate 1 (sdp_of demo_env_nocreate offer_c1) demo_buffered))
              1 = Inl ''InvalidStateError''"
    using g e2 by (simp add: demo_variant_signals demo_fields demo_env_simps sdp_v0_def)
  have h3: "signal_for demo_env_nolocal (r_callId (current demo)) ''OFFER'' offer_c1 \<and>
            ensurePc False demo_buffered = (1, demo_buffered) \<and>
            rtc_setRemoteDescription demo_env_nolocal (effects demo_buffered) 1
              (sdp_of demo_env_nolocal offer_c1) = None \<and>
            rtc_createAnswer demo_env_nolocal
              (effects (drained demo_env_nolocal 1 (sdp_of demo_env_nolocal offer_c1) demo_buffered))
              1 = Inr answer_v0 \<and>
            rtc_setLocalDescription demo_env_nolocal
              (effects (drained demo_env_nolocal 1 (sdp_of demo_env_nolocal offer_c1) demo_buffered) @
               [CreateAnswer 1]) 1 answer_v0 = Some ''InvalidAccessError''"
    using g e2
    by (simp add: demo_variant_signals demo_fields demo_env_simps sdp_v0_def answer_v0_def)
  have h4: "callId demo \<noteq> [] \<and> peerUsername demo \<noteq> [] \<and> ensurePc True demo = (1, ?c1) \<and>
            rtc_createOffer demo_env_nocreate (effects ?c1) 1 = Inl ''InvalidStateError''"
    using n e3 by (simp add: demo_env_simps)
  have h5: "callId demo \<noteq> [] \<and> peerUsername demo \<noteq> [] \<and> ensurePc True demo = (1, ?c1) \<and>
            rtc_createOffer demo_env_nolocal (effects ?c1) 1 = Inr offer_v0 \<and>
            rtc_setLocalDescription demo_env_nolocal (effects ?c1 @ [CreateOffer 1]) 1 offer_v0 =
              Some ''InvalidAccessError''"
    using n e3 by (simp add: demo_env_simps offer_v0_def)
  from negotiation_failure_rejects
    [where env = demo_env and r = "current demo" and st = demo and msg = offer_nosdp
       and p = 1 and ?s1.0 = ?s1 and err = "''TypeError''"] h1
  have r1: "let s' = ?s1\<lparr>effects := effects ?s1 @ [SetRemoteDescription 1 (sdp_of demo_env offer_nosdp)]\<rparr>
     in alone demo_env (onSignal demo_env (current demo) demo offer_nosdp) = (Rejected ''TypeError'', s') \<and>
        endable 1 s'"
    by blast
  from negotiation_failure_rejects
    [where env = demo_env_nocreate and r = "current demo" and st = demo_buffered
       and msg = offer_c1 and p = 1 and ?s1.0 = demo_buffered and err = "''InvalidStateError''"] h2
  have r2: "let d = drained demo_env_nocreate 1 (sdp_of demo_env_nocreate offer_c1) demo_buffered;
         s' = d\<lparr>effects := effects d @ [CreateAnswer 1]\<rparr>
     in alone demo_env_nocreate (onSignal demo_env_nocreate (current demo) demo_buffered offer_c1) =
          (Rejected ''InvalidStateError'', s') \<and> endable 1 s'"
    by blast
  from negotiation_failure_rejects
    [where env = demo_env_nolocal and r = "current demo" and st = demo_buffered
       and msg = offer_c1 and p = 1 and ?s1.0 = demo_buffered and err = "''InvalidAccessError''"
       and answer = answer_v0] h3
  have r3: "let d = drained demo_env_nolocal 1 (sdp_of demo_env_nolocal offer_c1) demo_buffered;
         s' = d\<lparr>effects := effects d @ [CreateAnswer 1, SetLocalDescription 1 answer_v0]\<rparr>
     in alone demo_env_nolocal (onSignal demo_env_nolocal (current demo) demo_buffered offer_c1) =
          (Rejected ''InvalidAccessError'', s') \<and> endable 1 s'"
    by blast
  from negotiation_failure_rejects
    [where env = demo_env_nocreate and st = demo and p = 1 and ?s1.0 = ?c1
       and err = "''InvalidStateError''"] h4
  have r4: "let s' = ?c1\<lparr>effects := effects ?c1 @ [CreateOffer 1]\<rparr>
     in alone demo_env_nocreate (startOffer demo_env_nocreate demo) =
          (Rejected ''InvalidStateError'', s') \<and> endable 1 s'"
    by blast
  from negotiation_failure_rejects
    [where env = demo_env_nolocal and st = demo and p = 1 and ?s1.0 = ?c1
       and err = "''InvalidAccessError''" and offer = offer_v0] h5
  have r5: "let s' = ?c1\<lparr>effects := effects ?c1 @ [CreateOffer 1, SetLocalDescription 1 offer_v0]\<rparr>
     in alone demo_env_nolocal (startOffer demo_env_nolocal demo) =
          (Rejected ''InvalidAccessError'', s') \<and> endable 1 s'"
    by blast
  note u = Let_def demo_variant_signals demo_fields demo_drained
  from r1 [unfolded u] r2 [unfolded u] r3 [unfolded u] r4 [unfolded u] r5 [unfolded u]
  show ?thesis
    by simp
qed

text \<open>
  The claim as stated has the failure logged. The handler of the OFFER without a
  description ends rejected and the log is as empty as before.
\<close>

theorem negotiation_failure_not_logged_counterexample:
  "fst (alone demo_env (onSignal demo_env (current demo) demo offer_nosdp)) = Rejected ''TypeError'' \<and>
   log (snd (alone demo_env (onSignal demo_env (current demo) demo offer_nosdp))) = log demo \<and>
   log demo = []"
  by (simp add: demo_nosdp_alone) (simp add: demo_def)

section \<open>Bodies that do not parse\<close>

text \<open>
  C9. When the body of a frame is absent, empty or rejected by \<^verbatim>\<open>JSON.parse\<close>,
  \<open>safeParse\<close> yields null, and both the signal handler and the notification handler,
  of whatever render, return at once with the state as it was: nothing is thrown,
  changed or published, and no function is left suspended.
\<close>

theorem unparsable_body_discarded:
  assumes "body msg = None \<or> body msg = Some [] \<or>
           (\<exists>t. body msg = Some t \<and> JSON_parse env t = None)"
  shows "safeParse env (body msg) = JNull \<and>
         onSignal env r st msg = (Done Returned, st) \<and>
         onCallNotif env r st msg = (Returned, st)"
proof -
  from assms have "safeParse env (body msg) = JNull"
    by (auto simp: safeParse_def)
  then show ?thesis
    by (simp add: onSignal_def onCallNotif_def Let_def)
qed

text \<open>
  A frame cut off in the middle of its JSON text.
\<close>

theorem unparsable_body_discarded_witness:
  "safeParse demo_env (body truncated) = JNull \<and>
   onSignal demo_env (current demo) demo truncated = (Done Returned, demo) \<and>
   onCallNotif demo_env (current demo) demo truncated = (Returned, demo)"
proof -
  have "\<exists>t. body truncated = Some t \<and> JSON_parse demo_env t = None"
    by (simp add: truncated_def demo_env_def demo_parse_def offer_c1_def offer_c2_def
        offer_nosdp_def ice_1_def ice_2_def ice_3_def ice_4_def ice_42_def notif_42_def
        notif_0_def notif_obj_def)
  then show ?thesis
    using unparsable_body_discarded [of truncated demo_env "current demo" demo] by blast
qed

section \<open>Call notifications\<close>

text \<open>
  C10, as the code has it. \<open>onCallNotif\<close> looks at no session state. When the \<^verbatim>\<open>callId\<close>
  of a notification is truthy and \<^verbatim>\<open>String\<close> renders it, the component's \<^verbatim>\<open>callId\<close> becomes
  that rendering, in every state of the component and for the handler of every render,
  and the peer connection, the data channel, the remote-ready flag, the candidate
  buffer and the record of calls stay as they are. When the \<^verbatim>\<open>callId\<close> is falsy (absent,
  null, \<^verbatim>\<open>0\<close>, the empty string, \<^verbatim>\<open>false\<close>) the component's \<^verbatim>\<open>callId\<close> stays as it is. When
  it is truthy and \<^verbatim>\<open>String\<close> throws on it, the handler ends with that error and the state
  as it was. What the signal handler filters against afterwards is not part of this
  statement.
\<close>

theorem notification_sets_callId:
  "(truthy (js_get (safeParse env (body msg)) ''callId'') \<and>
    js_String (js_get (safeParse env (body msg)) ''callId'') = Some s \<longrightarrow>
    callId (snd (onCallNotif env r st msg)) = s \<and>
    pcRef (snd (onCallNotif env r st msg)) = pcRef st \<and>
    dcRef (snd (onCallNotif env r st msg)) = dcRef st \<and>
    hasRemoteRef (snd (onCallNotif env r st msg)) = hasRemoteRef st \<and>
    pendingIceRef (snd (onCallNotif env r st msg)) = pendingIceRef st \<and>
    effects (snd (onCallNotif env r st msg)) = effects st) \<and>
   (\<not> truthy (js_get (safeParse env (body msg)) ''callId'') \<longrightarrow>
    callId (snd (onCallNotif env r st msg)) = callId st) \<and>
   (truthy (js_get (safeParse env (body msg)) ''callId'') \<and>
    js_String (js_get (safeParse env (body msg)) ''callId'') = None \<longrightarrow>
    onCallNotif env r st msg = (Rejected ''TypeError'', st))"
proof (intro conjI impI)
  let ?p = "safeParse env (body msg)"
  assume a: "truthy (js_get ?p ''callId'') \<and> js_String (js_get ?p ''callId'') = Some s"
  then have t: "truthy ?p" by (cases ?p) simp_all
  from a t show "callId (snd (onCallNotif env r st msg)) = s"
    by (simp add: onCallNotif_def Let_def logLine_def split: jsval.splits option.splits)
  from a t show "pcRef (snd (onCallNotif env r st msg)) = pcRef st"
    by (simp add: onCallNotif_def Let_def logLine_def split: jsval.splits option.splits)
  from a t show "dcRef (snd (onCallNotif env r st msg)) = dcRef st"
    by (simp add: onCallNotif_def Let_def logLine_def split: jsval.splits option.splits)
  from a t show "hasRemoteRef (snd (onCallNotif env r st msg)) = hasRemoteRef st"
    by (simp add: onCallNotif_def Let_def logLine_def split: jsval.splits option.splits)
  from a t show "pendingIceRef (snd (onCallNotif env r st msg)) = pendingIceRef st"
    by (simp add: onCallNotif_def Let_def logLine_def split: jsval.splits option.splits)
  from a t show "effects (snd (onCallNotif env r st msg)) = effects st"
    by (simp add: onCallNotif_def Let_def logLine_def split: jsval.splits option.splits)
next
  assume "\<not> truthy (js_get (safeParse env (body msg)) ''callId'')"
  then show "callId (snd (onCallNotif env r st msg)) = callId st"
    by (simp add: onCallNotif_def Let_def logLine_def split: jsval.splits option.splits)
next
  let ?p = "safeParse env (body msg)"
  assume a: "truthy (js_get ?p ''callId'') \<and> js_String (js_get ?p ''callId'') = None"
  then have t: "truthy ?p" by (cases ?p) simp_all
  from a t show "onCallNotif env r st msg = (Rejected ''TypeError'', st)"
    by (simp add: onCallNotif_def Let_def)
qed

text \<open>
  The callee in call \<^verbatim>\<open>c1\<close>, holding a peer connection and buffered candidates, is
  notified of call 42; of a call 0; of a call whose id is an object that cannot be
  rendered.
\<close>

theorem notification_sets_callId_witness:
  "callId (snd (onCallNotif demo_env (current demo) demo_buffered notif_42)) = ''42'' \<and>
   pcRef (snd (onCallNotif demo_env (current demo) demo_buffered notif_42)) = Some 1 \<and>
   pendingIceRef (snd (onCallNotif demo_env (current demo) demo_buffered notif_42)) =
     [cand ''k1'', cand ''bad'', cand ''k3''] \<and>
   effects (snd (onCallNotif demo_env (current demo) demo_buffered notif_42)) = [NewPc 1] \<and>
   callId (snd (onCallNotif demo_env (current demo) demo_buffered notif_0)) = ''c1'' \<and>
   onCallNotif demo_env (current demo) demo_buffered notif_obj =
     (Rejected ''TypeError'', demo_buffered)"
proof -
  note p = demo_parse_simps
  have h1: "truthy (js_get (safeParse demo_env (body notif_42)) ''callId'') \<and>
      js_String (js_get (safeParse demo_env (body notif_42)) ''callId'') = Some ''42''"
    by (simp add: p)
  have h2: "\<not> truthy (js_get (safeParse demo_env (body notif_0)) ''callId'')"
    by (simp add: p)
  have h3: "truthy (js_get (safeParse demo_env (body notif_obj)) ''callId'') \<and>
      js_String (js_get (safeParse demo_env (body notif_obj)) ''callId'') = None"
    by (simp add: p)
  from notification_sets_callId [of demo_env notif_42 "''42''" "current demo" demo_buffered] h1
  have a: "callId (snd (onCallNotif demo_env (current demo) demo_buffered notif_42)) = ''42'' \<and>
    pcRef (snd (onCallNotif demo_env (current demo) demo_buffered notif_42)) = pcRef demo_buffered \<and>
    pendingIceRef (snd (onCallNotif demo_env (current demo) demo_buffered notif_42)) =
      pendingIceRef demo_buffered \<and>
    effects (snd (onCallNotif demo_env (current demo) demo_buffered notif_42)) =
      effects demo_buffered"
    by blast
  from notification_sets_callId [of demo_env notif_0 _ "current demo" demo_buffered] h2
  have b: "callId (snd (onCallNotif demo_env (current demo) demo_buffered notif_0)) =
      callId demo_buffered"
    by blast
  from notification_sets_callId [of demo_env notif_obj _ "current demo" demo_buffered] h3
  have c: "onCallNotif demo_env (current demo) demo_buffered notif_obj =
      (Rejected ''TypeError'', demo_buffered)"
    by blast
  from a b c show ?thesis
    by (simp add: demo_buffered_def demo_def)
qed

text \<open>
  The claim as stated has every notification that carries a \<^verbatim>\<open>callId\<close> overwrite the
  component's. The notification of call 0 carries one and leaves \<^verbatim>\<open>c1\<close> in place.
\<close>

theorem notification_callId_zero_counterexample:
  "js_get (safeParse demo_env (body notif_0)) ''callId'' = JNum ''0'' \<and>
   onCallNotif demo_env (current demo) demo notif_0 =
     (Returned,
      demo\<lparr>peerUsername := ''alice'', log := [''CALL NOTIF: INCOMING_CALL 0'']\<rparr>) \<and>
   callId demo = ''c1''"
  by (simp add: onCallNotif_def demo_parse_simps nullish_def logLine_def Let_def current_def)
     (simp add: demo_def)

end
